theory Spec2Isabelle
  imports Main "HOL-Library.Sublist" "HOL-Library.AList"
begin

section \<open>Data model (types.ts, constants.ts as used by App.tsx and ChatInterface)\<close>

text \<open>
  Strings are JavaScript strings; one \<^typ>\<open>char\<close> stands for one code unit, so that
  \<open>length\<close> is \<open>.length\<close> and \<open>take n\<close> is \<open>.substring(0, n)\<close>. Instants
  (\<open>Date\<close>, Firestore \<open>Timestamp\<close>) are milliseconds since the epoch, as \<^typ>\<open>int\<close>.
\<close>

datatype Sender = User | AI

datatype ModelType = B1_REGULAR | B2_CODING

record ChatMessage =
  msg_id :: string
  msg_text :: string
  msg_sender :: Sender
  msg_timestamp :: int
  msg_imageUrl :: "string option"
  msg_isImageQuery :: "bool option"
  msg_generatedImage :: "string option"
  msg_modelUsed :: "ModelType option"

record ChatSession =
  ses_id :: string
  ses_title :: string
  ses_messages :: "ChatMessage list"
  ses_model :: ModelType
  ses_timestamp :: int
  ses_systemInstruction :: string

text \<open>
  \<open>Record<string, ChatSession>\<close>: an association list in the order \<open>Object.values\<close>
  enumerates it. \<open>obj[k]\<close> is \<^const>\<open>map_of\<close>, \<open>{...obj, [k]: v}\<close> is
  \<^const>\<open>AList.update\<close> (an existing key keeps its place, a new one goes last).
\<close>

type_synonym SessionRegistry = "(string \<times> ChatSession) list"

text \<open>The messages shown on the global error surface, by the name of their constant.\<close>

datatype ErrorMessage =
    ERROR_API_KEY_MISSING_BN
  | ERROR_INIT_FAILED_BN
  | ERROR_SESSION_NOT_READY_BN
  | ERROR_NO_INPUT_BN
  | ERROR_SEND_FAILED_BN
  | ERROR_API_KEY_INVALID_BN
  | IMAGE_LIMIT_REACHED_BN
  | IMAGE_GENERATION_LOGIN_REQUIRED_BN
  | IMAGE_GENERATION_FAILED_BN

text \<open>
  The constants of \<open>constants.ts\<close> and the process environment. Their values are not part
  of the two source files, so they are parameters of every definition below.
\<close>

record Constants =
  apiKey :: "string option"
  DEFAULT_MODEL_TYPE :: ModelType
  GEMINI_TEXT_MODEL_FLASH :: string
  DEFAULT_CHAT_TITLE_BN :: string
  INITIAL_WELCOME_MESSAGE_BN :: string
  SYSTEM_INSTRUCTION_B1_BN :: string
  SYSTEM_INSTRUCTION_B2_BN :: string
  IMAGE_QUERY_PROMPT_DEFAULT_BN :: string
  IMAGE_GENERATION_IN_PROGRESS_BN :: string
  IMAGE_REQUEST_SUFFIX_BN :: string
  IMAGE_RESULT_SUFFIX_BN :: string
  DAILY_IMAGE_GENERATION_LIMIT :: int
  textOf :: "ErrorMessage \<Rightarrow> string"
  timezoneOffset :: int

text \<open>The remote conversational capability: what \<open>ai.chats.create\<close> is given.\<close>

datatype Part = TextPart string | InlineDataPart string

record Content =
  role :: string
  parts :: "Part list"

record Chat =
  chat_model :: string
  chat_systemInstruction :: string
  chat_history :: "Content list"

datatype RemoteCall =
    SendMessageStream Chat "Part list"
  | GenerateImage string string

record UserImageGenerationData =
  count :: int
  lastGeneratedAt :: "int option"

text \<open>
  \<open>localStorage[CHAT_HISTORY_KEY]\<close> after \<open>JSON.parse\<close>: either the parse or the walk over
  the parsed value throws (\<open>Corrupt\<close>), or it is a registry. A missing or empty title is
  the empty string.
\<close>

datatype StoredHistory = Corrupt | Sessions SessionRegistry

text \<open>
  The state of the \<open>App\<close> component, of the \<open>ChatInterface\<close> component, and of the
  outside world they write to (local storage, the per-user document store, the log of
  calls to the remote capabilities). \<open>currentUser\<close> is the signed-in user's \<open>uid\<close>.
\<close>

record AppState =
  currentUser :: "string option"
  isSidebarOpen :: bool
  activeChatId :: "string option"
  chatSessions :: SessionRegistry
  globalError :: "ErrorMessage option"
  isChatInitializing :: bool
  chatSessionRef :: "Chat option"
  inputValue :: string
  isLoadingBotResponse :: bool
  uploadedImageFile :: "string option"
  uploadedImagePreview :: "string option"
  isGeneratingImageMode :: bool
  isProcessingImageGen :: bool
  userImageGenData :: "UserImageGenerationData option"
  storedHistory :: "StoredHistory option"
  storedActiveChatId :: "string option"
  userDocs :: "string \<rightharpoonup> UserImageGenerationData"
  remoteCalls :: "RemoteCall list"

section \<open>JavaScript helpers\<close>

text \<open>Truthiness of \<open>string | undefined\<close>, and \<open>a || b\<close> on strings.\<close>

definition truthy :: "string option \<Rightarrow> bool" where
  "truthy s = (case s of None \<Rightarrow> False | Some t \<Rightarrow> t \<noteq> [])"

definition orElse :: "string option \<Rightarrow> string \<Rightarrow> string" where
  "orElse s d = (case s of None \<Rightarrow> d | Some t \<Rightarrow> if t \<noteq> [] then t else d)"

definition includes_str :: "string \<Rightarrow> string \<Rightarrow> bool" where
  "includes_str s searchString = sublist searchString s"

definition substring0 :: "string \<Rightarrow> nat \<Rightarrow> string" where
  "substring0 s n = take n s"

definition find_first :: "('a \<Rightarrow> bool) \<Rightarrow> 'a list \<Rightarrow> 'a option" where
  "find_first p xs = List.find p xs"

text \<open>\<open>Number.prototype.toString()\<close> of an integer, in decimal.\<close>

definition digitChar :: "nat \<Rightarrow> char" where
  "digitChar k = ''0123456789'' ! k"

function digits :: "nat \<Rightarrow> string" where
  "digits n = (if n < 10 then [digitChar n] else digits (n div 10) @ [digitChar (n mod 10)])"
  by pat_completeness auto
termination
  by (relation "measure id") auto

declare digits.simps [simp del]

definition toString :: "int \<Rightarrow> string" where
  "toString i = (if i < 0 then CHR ''-'' # digits (nat (- i)) else digits (nat i))"

section \<open>App.tsx\<close>

definition getSystemInstruction :: "Constants \<Rightarrow> ModelType \<Rightarrow> string" where
  "getSystemInstruction cfg m =
     (if m = B2_CODING then SYSTEM_INSTRUCTION_B2_BN cfg else SYSTEM_INSTRUCTION_B1_BN cfg)"

text \<open>\<open>now\<close> is what \<open>Date.now()\<close> and \<open>new Date()\<close> read during the call.\<close>

definition createNewChatSessionObject ::
  "Constants \<Rightarrow> int \<Rightarrow> ModelType \<Rightarrow> string option \<Rightarrow> ChatMessage list option \<Rightarrow> string option
     \<Rightarrow> ChatSession" where
  "createNewChatSessionObject cfg now m ident msgs ttl =
     (let newChatId = orElse ident (toString now);
          systemInstruction = getSystemInstruction cfg m;
          initialMessages = (case msgs of
              Some ms \<Rightarrow> ms
            | None \<Rightarrow> [\<lparr> msg_id = toString now @ ''_ai_welcome'',
                        msg_text = INITIAL_WELCOME_MESSAGE_BN cfg,
                        msg_sender = AI,
                        msg_timestamp = now,
                        msg_imageUrl = None, msg_isImageQuery = None, msg_generatedImage = None,
                        msg_modelUsed = Some m \<rparr>])
      in \<lparr> ses_id = newChatId,
           ses_title = orElse ttl (DEFAULT_CHAT_TITLE_BN cfg),
           ses_messages = initialMessages,
           ses_model = m,
           ses_timestamp = now,
           ses_systemInstruction = systemInstruction \<rparr>)"

text \<open>
  The history replayed to \<open>ai.chats.create\<close>; the same expression in
  \<open>initializeChatLogic\<close> and in \<open>selectChatSession\<close>. In the filter \<open>&&\<close> binds tighter
  than \<open>||\<close>.
\<close>

definition replayFilter :: "ChatMessage \<Rightarrow> bool" where
  "replayFilter m =
     ((msg_text m \<noteq> [] \<and> msg_sender m \<noteq> AI)
      \<or> (msg_sender m = AI \<and> \<not> includes_str (msg_id m) ''_ai_welcome'' \<and> msg_text m \<noteq> []))"

definition replayTurn :: "ChatMessage \<Rightarrow> Content" where
  "replayTurn m =
     \<lparr> role = (if msg_sender m = User then ''user'' else ''model''),
       parts = [TextPart (msg_text m)] \<rparr>"

definition replayHistory :: "ChatMessage list \<Rightarrow> Content list" where
  "replayHistory msgs = map replayTurn (filter replayFilter msgs)"

definition chatsCreate :: "Constants \<Rightarrow> string \<Rightarrow> Content list \<Rightarrow> Chat" where
  "chatsCreate cfg instr hist =
     \<lparr> chat_model = GEMINI_TEXT_MODEL_FLASH cfg, chat_systemInstruction = instr,
       chat_history = hist \<rparr>"

text \<open>
  The title given to a stored session that has none (the \<open>forEach\<close> of
  \<open>initializeChatLogic\<close>); the timestamps are instants already.
\<close>

definition backfillTitle :: "Constants \<Rightarrow> ChatSession \<Rightarrow> ChatSession" where
  "backfillTitle cfg session =
     (if ses_title session = [] then
        session\<lparr> ses_title :=
          orElse (map_option (\<lambda>m. substring0 (msg_text m) 30)
                    (find_first (\<lambda>m. msg_sender m = User) (ses_messages session)))
                 (DEFAULT_CHAT_TITLE_BN cfg) \<rparr>
      else session)"

definition mostRecent :: "SessionRegistry \<Rightarrow> ChatSession" where
  "mostRecent reg = hd (sort_key (\<lambda>s. - ses_timestamp s) (map snd reg))"

text \<open>\<open>createNewChatSessionObject(modelToUse || DEFAULT_MODEL_TYPE)\<close>\<close>

definition freshSession :: "Constants \<Rightarrow> int \<Rightarrow> ModelType option \<Rightarrow> ChatSession" where
  "freshSession cfg now modelToUse =
     createNewChatSessionObject cfg now
       (case modelToUse of Some m \<Rightarrow> m | None \<Rightarrow> DEFAULT_MODEL_TYPE cfg) None None None"

text \<open>
  \<open>loadedSessions\<close> after the \<open>if (storedHistory)\<close> block: \<open>None\<close> when parsing or
  the walk over the sessions throws.
\<close>

definition loadedSessions :: "Constants \<Rightarrow> AppState \<Rightarrow> SessionRegistry option" where
  "loadedSessions cfg st =
     (case storedHistory st of
        None \<Rightarrow> Some []
      | Some Corrupt \<Rightarrow> None
      | Some (Sessions reg) \<Rightarrow> Some (map (\<lambda>(k, s). (k, backfillTitle cfg s)) reg))"

text \<open>
  The \<open>try\<close> block of \<open>initializeChatLogic\<close>; \<open>None\<close> when it throws. \<open>createOk\<close> says
  whether constructing the remote conversation succeeds.
\<close>

definition initializeTry ::
  "Constants \<Rightarrow> int \<Rightarrow> bool \<Rightarrow> string option \<Rightarrow> ModelType option \<Rightarrow> AppState \<Rightarrow> AppState option" where
  "initializeTry cfg now createOk sessionIdToLoad modelToUse st =
     (let storedActive = (if truthy sessionIdToLoad then sessionIdToLoad else storedActiveChatId st)
      in case loadedSessions cfg st of
           None \<Rightarrow> None
         | Some loaded \<Rightarrow>
            (let found = (if truthy storedActive then map_of loaded (orElse storedActive []) else None);
                 (loadedSessions, newActiveChatId, activeSessionToInit) =
                   (case found of
                      Some s \<Rightarrow> (loaded, orElse storedActive [], Some s)
                    | None \<Rightarrow>
                       (if loaded \<noteq> [] \<and> \<not> truthy sessionIdToLoad then
                          (loaded, ses_id (mostRecent loaded),
                           map_of loaded (ses_id (mostRecent loaded)))
                        else
                          (let newSession = freshSession cfg now modelToUse
                           in (AList.update (ses_id newSession) newSession loaded,
                               ses_id newSession, Some newSession))))
             in case activeSessionToInit of
                  None \<Rightarrow> None
                | Some s \<Rightarrow>
                   (if createOk then
                      Some (st\<lparr> isChatInitializing := True, globalError := None,
                                chatSessions := loadedSessions,
                                activeChatId := Some newActiveChatId,
                                chatSessionRef := Some (chatsCreate cfg (ses_systemInstruction s)
                                                          (replayHistory (ses_messages s))) \<rparr>)
                    else None)))"

definition initializeChatLogic ::
  "Constants \<Rightarrow> int \<Rightarrow> bool \<Rightarrow> bool \<Rightarrow> string option \<Rightarrow> ModelType option \<Rightarrow> AppState \<Rightarrow> AppState" where
  "initializeChatLogic cfg now createOk fallbackCreateOk sessionIdToLoad modelToUse st =
     (let newSession = freshSession cfg now modelToUse
      in if \<not> truthy (apiKey cfg) then
           st\<lparr> globalError := Some ERROR_API_KEY_MISSING_BN, isChatInitializing := False,
               chatSessions := [(ses_id newSession, newSession)],
               activeChatId := Some (ses_id newSession) \<rparr>
         else
           (case initializeTry cfg now createOk sessionIdToLoad modelToUse st of
              Some st' \<Rightarrow> st'\<lparr> isChatInitializing := False \<rparr>
            | None \<Rightarrow>
               st\<lparr> globalError := Some ERROR_INIT_FAILED_BN,
                   chatSessions := [(ses_id newSession, newSession)],
                   activeChatId := Some (ses_id newSession),
                   chatSessionRef :=
                     (if fallbackCreateOk
                      then Some (chatsCreate cfg (ses_systemInstruction newSession) [])
                      else chatSessionRef st),
                   isChatInitializing := False \<rparr>))"

text \<open>The effect that persists the registry once initialisation has settled.\<close>

definition persist :: "AppState \<Rightarrow> AppState" where
  "persist st =
     (if truthy (activeChatId st) \<and> chatSessions st \<noteq> [] \<and> \<not> isChatInitializing st then
        st\<lparr> storedHistory := Some (Sessions (chatSessions st)),
            storedActiveChatId := activeChatId st \<rparr>
      else st)"

definition startNewChat :: "Constants \<Rightarrow> int \<Rightarrow> bool \<Rightarrow> ModelType \<Rightarrow> AppState \<Rightarrow> AppState" where
  "startNewChat cfg now createOk m st =
     (let newSession = createNewChatSessionObject cfg now m None None None;
          st1 = st\<lparr> chatSessions := AList.update (ses_id newSession) newSession (chatSessions st),
                    activeChatId := Some (ses_id newSession) \<rparr>;
          st2 = (if truthy (apiKey cfg) then
                   (if createOk then
                      st1\<lparr> chatSessionRef :=
                             Some (chatsCreate cfg (ses_systemInstruction newSession) []),
                           globalError := None \<rparr>
                    else st1\<lparr> globalError := Some ERROR_INIT_FAILED_BN \<rparr>)
                 else st1\<lparr> globalError := Some ERROR_API_KEY_MISSING_BN \<rparr>)
      in st2\<lparr> isSidebarOpen := False \<rparr>)"

definition selectChatSession :: "Constants \<Rightarrow> bool \<Rightarrow> string \<Rightarrow> AppState \<Rightarrow> AppState" where
  "selectChatSession cfg createOk sessionId st =
     (if Some sessionId = activeChatId st then st\<lparr> isSidebarOpen := False \<rparr>
      else
        (case map_of (chatSessions st) sessionId of
           None \<Rightarrow> st\<lparr> isSidebarOpen := False \<rparr>
         | Some selectedSession \<Rightarrow>
            (let st1 = st\<lparr> activeChatId := Some sessionId \<rparr>;
                 st2 = (if truthy (apiKey cfg) then
                          (if createOk then
                             st1\<lparr> chatSessionRef :=
                                    Some (chatsCreate cfg (ses_systemInstruction selectedSession)
                                            (replayHistory (ses_messages selectedSession))),
                                  globalError := None \<rparr>
                           else st1\<lparr> globalError := Some ERROR_INIT_FAILED_BN \<rparr>)
                        else st1\<lparr> globalError := Some ERROR_API_KEY_MISSING_BN \<rparr>)
             in st2\<lparr> isSidebarOpen := False \<rparr>)))"

definition handleModelChangeOnSidebar ::
  "Constants \<Rightarrow> int \<Rightarrow> bool \<Rightarrow> ModelType \<Rightarrow> AppState \<Rightarrow> AppState" where
  "handleModelChangeOnSidebar cfg now createOk newModel st =
     (case activeChatId st of
        None \<Rightarrow> st
      | Some a \<Rightarrow>
          if a \<noteq> [] \<and> map_option ses_model (map_of (chatSessions st) a) \<noteq> Some newModel
          then startNewChat cfg now createOk newModel st
          else st)"

section \<open>ChatInterface\<close>

text \<open>
  The props a render of \<open>ChatInterface\<close> closes over. A handler keeps the
  \<open>activeChatSession\<close> of the render it was started in, also after the state has moved on;
  the registry it updates is always the latest one (\<open>chatSessionsUpdater\<close> takes a
  function of the previous registry).
\<close>

definition activeChatSession :: "AppState \<Rightarrow> ChatSession option" where
  "activeChatSession st =
     (case activeChatId st of
        None \<Rightarrow> None
      | Some a \<Rightarrow> if a \<noteq> [] then map_of (chatSessions st) a else None)"

definition currentModel :: "ChatSession option \<Rightarrow> ModelType" where
  "currentModel acs = (case acs of None \<Rightarrow> B1_REGULAR | Some s \<Rightarrow> ses_model s)"

definition chatSessionsUpdater ::
  "(SessionRegistry \<Rightarrow> SessionRegistry) \<Rightarrow> AppState \<Rightarrow> AppState" where
  "chatSessionsUpdater updater st = st\<lparr> chatSessions := updater (chatSessions st) \<rparr>"

text \<open>\<open>t.substring(0, 35) + (t.length > 35 ? '...' : '')\<close>\<close>

definition autoTitle :: "string \<Rightarrow> string" where
  "autoTitle t = substring0 t 35 @ (if length t > 35 then ''...'' else [])"

text \<open>The title chosen inside \<open>updateCurrentSessionMessages\<close> (\<open>let titleToSet\<close>).\<close>

definition titleToSet ::
  "Constants \<Rightarrow> string option \<Rightarrow> ChatMessage list \<Rightarrow> ChatSession \<Rightarrow> string" where
  "titleToSet cfg newTitle updatedMessages currentSession =
     (if truthy newTitle then orElse newTitle []
      else if length updatedMessages > 1
              \<and> ses_title currentSession = DEFAULT_CHAT_TITLE_BN cfg then
        (case find_first (\<lambda>m. msg_sender m = User \<and> msg_text m \<noteq> []) updatedMessages of
           Some firstUserMessage \<Rightarrow> autoTitle (msg_text firstUserMessage)
         | None \<Rightarrow> ses_title currentSession)
      else ses_title currentSession)"

definition updateCurrentSessionMessages ::
  "Constants \<Rightarrow> ChatSession option \<Rightarrow> int \<Rightarrow> (ChatMessage list \<Rightarrow> ChatMessage list)
     \<Rightarrow> string option \<Rightarrow> SessionRegistry \<Rightarrow> SessionRegistry" where
  "updateCurrentSessionMessages cfg acs now newMessagesFn newTitle prevSessions =
     (case acs of
        None \<Rightarrow> prevSessions
      | Some a \<Rightarrow>
         (case map_of prevSessions (ses_id a) of
            None \<Rightarrow> prevSessions
          | Some currentSession \<Rightarrow>
             (let updatedMessages = newMessagesFn (ses_messages currentSession)
              in AList.update (ses_id a)
                   (currentSession\<lparr> ses_messages := updatedMessages,
                                    ses_title := titleToSet cfg newTitle updatedMessages currentSession,
                                    ses_timestamp := now \<rparr>)
                   prevSessions)))"

definition addMessageToCurrentChat ::
  "Constants \<Rightarrow> ChatSession option \<Rightarrow> int \<Rightarrow> ChatMessage \<Rightarrow> string option
     \<Rightarrow> SessionRegistry \<Rightarrow> SessionRegistry" where
  "addMessageToCurrentChat cfg acs now message ttl =
     updateCurrentSessionMessages cfg acs now (\<lambda>prev. prev @ [message]) ttl"

definition streamTransform ::
  "ModelType \<Rightarrow> int \<Rightarrow> string \<Rightarrow> string \<Rightarrow> bool \<Rightarrow> ChatMessage list \<Rightarrow> ChatMessage list" where
  "streamTransform cm now aiMessageId chunkText isFinal prevMessages =
     (let messageExists = (\<exists>msg \<in> set prevMessages. msg_id msg = aiMessageId);
          updatedMessages =
            map (\<lambda>msg. if msg_id msg = aiMessageId
                        then msg\<lparr> msg_text := msg_text msg @ chunkText,
                                  msg_modelUsed := (if isFinal then Some cm else msg_modelUsed msg) \<rparr>
                        else msg)
                prevMessages
      in if \<not> messageExists \<and> chunkText \<noteq> [] then
           updatedMessages @
             [\<lparr> msg_id = aiMessageId, msg_text = chunkText, msg_sender = AI, msg_timestamp = now,
                msg_imageUrl = None, msg_isImageQuery = None, msg_generatedImage = None,
                msg_modelUsed = Some cm \<rparr>]
         else updatedMessages)"

definition updateAIMessageStream ::
  "Constants \<Rightarrow> ChatSession option \<Rightarrow> int \<Rightarrow> string \<Rightarrow> string \<Rightarrow> bool
     \<Rightarrow> SessionRegistry \<Rightarrow> SessionRegistry" where
  "updateAIMessageStream cfg acs now aiMessageId chunkText isFinal =
     (case acs of
        None \<Rightarrow> (\<lambda>prevSessions. prevSessions)
      | Some a \<Rightarrow>
          updateCurrentSessionMessages cfg acs now
            (streamTransform (currentModel acs) now aiMessageId chunkText isFinal) None)"

subsection \<open>handleSendMessage\<close>

definition isWhiteSpace :: "char \<Rightarrow> bool" where
  "isWhiteSpace c = (c \<in> set [CHR '' '', CHR 0x09, CHR 0x0A, CHR 0x0B, CHR 0x0C, CHR 0x0D])"

definition trim :: "string \<Rightarrow> string" where
  "trim s = rev (dropWhile isWhiteSpace (rev (dropWhile isWhiteSpace s)))"

text \<open>What the running handler keeps: the session of its render and the placeholder's id.\<close>

record SendClosure =
  cl_activeChatSession :: "ChatSession option"
  cl_aiMessageId :: string
  cl_userMessageText :: string
  cl_uploadedImageFile :: "string option"

text \<open>The empty AI message appended before the request is made.\<close>

definition placeholderMessage :: "int \<Rightarrow> ModelType \<Rightarrow> ChatMessage" where
  "placeholderMessage now cm =
     \<lparr> msg_id = toString now @ ''_ai'', msg_text = [], msg_sender = AI,
       msg_timestamp = now, msg_imageUrl = None, msg_isImageQuery = None,
       msg_generatedImage = None, msg_modelUsed = Some cm \<rparr>"

text \<open>
  The synchronous part of \<open>handleSendMessage\<close>, up to the \<open>try\<close>: the guards, the user's
  message and the empty placeholder. No closure is returned when a guard returns early.
\<close>

definition sendPrefix :: "Constants \<Rightarrow> int \<Rightarrow> AppState \<Rightarrow> AppState \<times> SendClosure option" where
  "sendPrefix cfg now st =
     (let textToSend = trim (inputValue st);
          acs = activeChatSession st
      in if (textToSend = [] \<and> uploadedImageFile st = None)
            \<or> isLoadingBotResponse st \<or> isProcessingImageGen st then (st, None)
         else if chatSessionRef st = None then
           (st\<lparr> globalError := Some ERROR_SESSION_NOT_READY_BN \<rparr>, None)
         else if \<not> truthy (apiKey cfg) then
           (st\<lparr> globalError := Some ERROR_API_KEY_MISSING_BN \<rparr>, None)
         else
           (let userMessageText =
                  (if textToSend \<noteq> [] then textToSend
                   else if uploadedImageFile st \<noteq> None then IMAGE_QUERY_PROMPT_DEFAULT_BN cfg
                   else [])
            in if userMessageText = [] then
                 (st\<lparr> isLoadingBotResponse := False, globalError := Some ERROR_NO_INPUT_BN \<rparr>, None)
               else
                 (let userMessage =
                        \<lparr> msg_id = toString now @ ''_user'', msg_text = userMessageText,
                          msg_sender = User, msg_timestamp = now,
                          msg_imageUrl = (if truthy (uploadedImagePreview st)
                                          then uploadedImagePreview st else None),
                          msg_isImageQuery = Some (uploadedImageFile st \<noteq> None),
                          msg_generatedImage = None, msg_modelUsed = None \<rparr>;
                      titleForSession =
                        (case acs of
                           None \<Rightarrow> None
                         | Some a \<Rightarrow> if ses_title a = DEFAULT_CHAT_TITLE_BN cfg
                                     then Some (autoTitle userMessageText) else None);
                      placeholder = placeholderMessage now (currentModel acs);
                      aiMessageId = msg_id placeholder;
                      st1 = st\<lparr> isLoadingBotResponse := True, globalError := None \<rparr>;
                      st2 = chatSessionsUpdater
                              (addMessageToCurrentChat cfg acs now userMessage titleForSession) st1;
                      st3 = st2\<lparr> inputValue := [], uploadedImageFile := None,
                                 uploadedImagePreview := None \<rparr>;
                      st4 = chatSessionsUpdater
                              (addMessageToCurrentChat cfg acs now placeholder None) st3
                  in (st4, Some \<lparr> cl_activeChatSession = acs, cl_aiMessageId = aiMessageId,
                                  cl_userMessageText = userMessageText,
                                  cl_uploadedImageFile = uploadedImageFile st \<rparr>))))"

text \<open>
  The request: with an attached image, \<open>fileToGenerativePart\<close> is awaited first (\<open>Inl\<close>
  when it throws); then \<open>sendMessageStream\<close> is called on the current handle. \<open>Inl e\<close>
  is an exception with message \<open>e\<close>, before any remote call.
\<close>

definition sendRequest ::
  "SendClosure \<Rightarrow> (string option + Part) \<Rightarrow> AppState \<Rightarrow> string option + AppState" where
  "sendRequest cl filePart st =
     (let messageParts =
            (case cl_uploadedImageFile cl of
               None \<Rightarrow> Inr [TextPart (cl_userMessageText cl)]
             | Some f \<Rightarrow> (case filePart of
                            Inl e \<Rightarrow> Inl e
                          | Inr imagePart \<Rightarrow> Inr [TextPart (cl_userMessageText cl), imagePart]))
      in case messageParts of
           Inl e \<Rightarrow> Inl e
         | Inr ps \<Rightarrow>
            (case chatSessionRef st of
               None \<Rightarrow> Inl None
             | Some chat \<Rightarrow>
                 Inr (st\<lparr> remoteCalls := remoteCalls st @ [SendMessageStream chat ps] \<rparr>)))"

text \<open>One round of the \<open>for await\<close> loop; \<open>chunk.text\<close> may be absent.\<close>

definition onChunk :: "Constants \<Rightarrow> SendClosure \<Rightarrow> int \<Rightarrow> string option \<Rightarrow> AppState \<Rightarrow> AppState" where
  "onChunk cfg cl now chunkText st =
     (if truthy chunkText then
        chatSessionsUpdater
          (updateAIMessageStream cfg (cl_activeChatSession cl) now (cl_aiMessageId cl)
             (orElse chunkText []) False) st
      else st)"

definition onStreamEnd :: "Constants \<Rightarrow> SendClosure \<Rightarrow> int \<Rightarrow> AppState \<Rightarrow> AppState" where
  "onStreamEnd cfg cl now st =
     (chatSessionsUpdater
        (updateAIMessageStream cfg (cl_activeChatSession cl) now (cl_aiMessageId cl) [] True) st)
       \<lparr> isLoadingBotResponse := False \<rparr>"

text \<open>The \<open>catch\<close> block; \<open>e\<close> is \<open>e.message\<close>.\<close>

definition sendErrorOf :: "string option \<Rightarrow> ErrorMessage" where
  "sendErrorOf e =
     (if truthy e \<and> includes_str (orElse e []) ''API key not valid''
      then ERROR_API_KEY_INVALID_BN else ERROR_SEND_FAILED_BN)"

definition onStreamError ::
  "Constants \<Rightarrow> SendClosure \<Rightarrow> int \<Rightarrow> string option \<Rightarrow> AppState \<Rightarrow> AppState" where
  "onStreamError cfg cl now e st =
     (let errorText = sendErrorOf e;
          acs = cl_activeChatSession cl
      in (chatSessionsUpdater
            (updateCurrentSessionMessages cfg acs now
               (map (\<lambda>msg. if msg_id msg = cl_aiMessageId cl
                            then msg\<lparr> msg_text := textOf cfg errorText,
                                      msg_modelUsed := Some (currentModel acs) \<rparr>
                            else msg))
               None) st)
           \<lparr> globalError := Some errorText, isLoadingBotResponse := False \<rparr>)"

datatype StreamEnd = Completed | Failed "string option"

fun onChunks :: "Constants \<Rightarrow> SendClosure \<Rightarrow> (int \<times> string option) list \<Rightarrow> AppState \<Rightarrow> AppState" where
  "onChunks cfg cl [] st = st"
| "onChunks cfg cl ((t, c) # cs) st = onChunks cfg cl cs (onChunk cfg cl t c st)"

definition onSettle :: "Constants \<Rightarrow> SendClosure \<Rightarrow> int \<Rightarrow> StreamEnd \<Rightarrow> AppState \<Rightarrow> AppState" where
  "onSettle cfg cl now ending st =
     (case ending of
        Completed \<Rightarrow> onStreamEnd cfg cl now st
      | Failed e \<Rightarrow> onStreamError cfg cl now e st)"

text \<open>
  A whole run of \<open>handleSendMessage\<close> with nothing else happening in between: the stream
  delivers \<open>chunks\<close> (each with its arrival time) and then ends at \<open>endAt\<close>.
\<close>

definition handleSendMessage ::
  "Constants \<Rightarrow> int \<Rightarrow> (string option + Part) \<Rightarrow> (int \<times> string option) list \<Rightarrow> int \<Rightarrow> StreamEnd
     \<Rightarrow> AppState \<Rightarrow> AppState" where
  "handleSendMessage cfg now filePart chunks endAt ending st =
     (case sendPrefix cfg now st of
        (st1, None) \<Rightarrow> st1
      | (st1, Some cl) \<Rightarrow>
         (case sendRequest cl filePart st1 of
            Inl e \<Rightarrow> onStreamError cfg cl endAt e st1
          | Inr st2 \<Rightarrow> onSettle cfg cl endAt ending (onChunks cfg cl chunks st2)))"

subsection \<open>handleGenerateImage and the daily quota\<close>

text \<open>
  \<open>today.setHours(0,0,0,0)\<close>: the local midnight at or before \<open>t\<close>, for a local zone
  that is \<open>timezoneOffset\<close> milliseconds ahead of UTC.
\<close>

definition startOfLocalDay :: "Constants \<Rightarrow> int \<Rightarrow> int" where
  "startOfLocalDay cfg t = t - (t + timezoneOffset cfg) mod 86400000"

text \<open>The count computed before the request (the \<open>let currentCount\<close> block).\<close>

definition currentCount :: "Constants \<Rightarrow> int \<Rightarrow> UserImageGenerationData option \<Rightarrow> int" where
  "currentCount cfg now d =
     (case d of
        None \<Rightarrow> 0
      | Some r \<Rightarrow>
         (case lastGeneratedAt r of
            None \<Rightarrow> 0
          | Some t \<Rightarrow> if startOfLocalDay cfg now \<le> t then count r else 0))"

text \<open>
  \<open>newCountToday\<close>, computed after the image has arrived; \<open>None\<close> when \<open>.toDate()\<close> is
  called on a missing timestamp and throws.
\<close>

definition newCountToday :: "Constants \<Rightarrow> int \<Rightarrow> UserImageGenerationData option \<Rightarrow> int option" where
  "newCountToday cfg now d =
     (case d of
        None \<Rightarrow> Some (0 + 1)
      | Some r \<Rightarrow>
         (case lastGeneratedAt r of
            None \<Rightarrow> None
          | Some t \<Rightarrow> Some ((if startOfLocalDay cfg now \<le> t then count r else 0) + 1)))"

text \<open>
  What the outside world contributes to one run of \<open>handleGenerateImage\<close>: the time of the
  click, the outcome of \<open>generateImageFromPromptService\<close> (\<open>Inl\<close> when it rejects) and
  when it arrived, whether \<open>setDoc\<close> succeeds, the server's timestamp, and the client's
  \<open>Timestamp.now()\<close> afterwards.
\<close>

record ImageGenEnv =
  ig_now :: int
  ig_result :: "string option + string"
  ig_doneAt :: int
  ig_setDocOk :: bool
  ig_serverTimestamp :: int
  ig_cachedAt :: int

definition imageGenFailed ::
  "Constants \<Rightarrow> ChatSession option \<Rightarrow> int \<Rightarrow> string \<Rightarrow> AppState \<Rightarrow> AppState" where
  "imageGenFailed cfg acs now aiMessageId st =
     (chatSessionsUpdater
        (updateCurrentSessionMessages cfg acs now
           (map (\<lambda>msg. if msg_id msg = aiMessageId
                        then msg\<lparr> msg_text := textOf cfg IMAGE_GENERATION_FAILED_BN \<rparr> else msg))
           None) st)
       \<lparr> globalError := Some IMAGE_GENERATION_FAILED_BN, isProcessingImageGen := False \<rparr>"

definition handleGenerateImage :: "Constants \<Rightarrow> ImageGenEnv \<Rightarrow> AppState \<Rightarrow> AppState" where
  "handleGenerateImage cfg env st =
     (let prompt = trim (inputValue st);
          acs = activeChatSession st;
          cached = userImageGenData st
      in if prompt = [] \<or> isLoadingBotResponse st \<or> isProcessingImageGen st then st
         else if \<not> truthy (apiKey cfg) then st\<lparr> globalError := Some ERROR_API_KEY_MISSING_BN \<rparr>
         else
          (case currentUser st of
             None \<Rightarrow> st\<lparr> globalError := Some IMAGE_GENERATION_LOGIN_REQUIRED_BN \<rparr>
           | Some uid \<Rightarrow>
              if currentCount cfg (ig_now env) cached \<ge> DAILY_IMAGE_GENERATION_LIMIT cfg then
                st\<lparr> globalError := Some IMAGE_LIMIT_REACHED_BN \<rparr>
              else
               (let originalInputValue = inputValue st;
                    userMessage =
                      \<lparr> msg_id = toString (ig_now env) @ ''_user_img_prompt'',
                        msg_text = CHR 0x22 # originalInputValue @ CHR 0x22 # IMAGE_REQUEST_SUFFIX_BN cfg,
                        msg_sender = User, msg_timestamp = ig_now env,
                        msg_imageUrl = None, msg_isImageQuery = None, msg_generatedImage = None,
                        msg_modelUsed = None \<rparr>;
                    aiMessageId = toString (ig_now env) @ ''_ai_img_gen'';
                    progress =
                      \<lparr> msg_id = aiMessageId, msg_text = IMAGE_GENERATION_IN_PROGRESS_BN cfg,
                        msg_sender = AI, msg_timestamp = ig_now env,
                        msg_imageUrl = None, msg_isImageQuery = None, msg_generatedImage = None,
                        msg_modelUsed = Some (currentModel acs) \<rparr>;
                    st1 = st\<lparr> isProcessingImageGen := True, globalError := None, inputValue := [] \<rparr>;
                    st2 = chatSessionsUpdater
                            (addMessageToCurrentChat cfg acs (ig_now env) userMessage None) st1;
                    st3 = chatSessionsUpdater
                            (addMessageToCurrentChat cfg acs (ig_now env) progress None) st2;
                    st4 = st3\<lparr> remoteCalls :=
                                 remoteCalls st3 @ [GenerateImage prompt (orElse (apiKey cfg) [])] \<rparr>
                in case ig_result env of
                     Inl e \<Rightarrow> imageGenFailed cfg acs (ig_doneAt env) aiMessageId st4
                   | Inr base64Image \<Rightarrow>
                      (let aiGeneratedImageMessage =
                             \<lparr> msg_id = aiMessageId,
                               msg_text = CHR 0x22 # originalInputValue @ CHR 0x22 # IMAGE_RESULT_SUFFIX_BN cfg,
                               msg_sender = AI, msg_timestamp = ig_doneAt env,
                               msg_imageUrl = None, msg_isImageQuery = None,
                               msg_generatedImage = Some base64Image,
                               msg_modelUsed = Some (currentModel acs) \<rparr>;
                           st5 = chatSessionsUpdater
                                   (updateCurrentSessionMessages cfg acs (ig_doneAt env)
                                      (map (\<lambda>msg. if msg_id msg = aiMessageId
                                                   then aiGeneratedImageMessage else msg))
                                      None) st4
                       in case newCountToday cfg (ig_doneAt env) cached of
                            None \<Rightarrow> imageGenFailed cfg acs (ig_doneAt env) aiMessageId st5
                          | Some n \<Rightarrow>
                             if \<not> ig_setDocOk env then
                               imageGenFailed cfg acs (ig_doneAt env) aiMessageId st5
                             else
                               st5\<lparr> userDocs := (userDocs st5)
                                       (uid \<mapsto> \<lparr> count = n,
                                                lastGeneratedAt = Some (ig_serverTimestamp env) \<rparr>),
                                    userImageGenData :=
                                       Some \<lparr> count = n, lastGeneratedAt = Some (ig_cachedAt env) \<rparr>,
                                    isProcessingImageGen := False \<rparr>))))"

text \<open>The effect that refreshes the cached quota record when the signed-in user changes.\<close>

definition fetchData :: "AppState \<Rightarrow> AppState" where
  "fetchData st =
     (case currentUser st of
        None \<Rightarrow> st\<lparr> userImageGenData := None \<rparr>
      | Some uid \<Rightarrow>
          st\<lparr> userImageGenData :=
                Some (case userDocs st uid of
                        Some d \<Rightarrow> d
                      | None \<Rightarrow> \<lparr> count = 0, lastGeneratedAt = Some 0 \<rparr>) \<rparr>)"

definition setInputValue :: "string \<Rightarrow> AppState \<Rightarrow> AppState" where
  "setInputValue v st = st\<lparr> inputValue := v \<rparr>"

section \<open>Reference definitions\<close>

text \<open>
  A fragment's text appended to every message that carries the placeholder's id, and the
  text of a sequence of fragments in the order of arrival (a fragment without text
  contributes nothing).
\<close>

definition appendText :: "string \<Rightarrow> string \<Rightarrow> ChatMessage \<Rightarrow> ChatMessage" where
  "appendText P c m = (if msg_id m = P then m\<lparr> msg_text := msg_text m @ c \<rparr> else m)"

definition fragmentText :: "(int \<times> string option) list \<Rightarrow> string" where
  "fragmentText chunks = concat (map (\<lambda>(t, c). orElse c []) chunks)"

text \<open>
  The replay rule in the specification's words: the welcome message is the one whose id
  ends in the reserved suffix; it and every message with empty text are left out; \<open>User\<close>
  becomes the role "user" and \<open>AI\<close> the role "model".
\<close>

definition isWelcome_spec :: "ChatMessage \<Rightarrow> bool" where
  "isWelcome_spec m = suffix ''_ai_welcome'' (msg_id m)"

definition replay_spec :: "ChatMessage list \<Rightarrow> Content list" where
  "replay_spec msgs =
     map (\<lambda>m. \<lparr> role = (case msg_sender m of User \<Rightarrow> ''user'' | AI \<Rightarrow> ''model''),
                parts = [TextPart (msg_text m)] \<rparr>)
         (filter (\<lambda>m. \<not> isWelcome_spec m \<and> msg_text m \<noteq> []) msgs)"

text \<open>
  The ids the program gives to messages keep the marker \<open>_ai_welcome\<close> for the welcome
  message: where it occurs in an id, it is the suffix of an AI message's id.
\<close>

definition markerReserved :: "ChatMessage list \<Rightarrow> bool" where
  "markerReserved msgs =
     (\<forall>m \<in> set msgs. includes_str (msg_id m) ''_ai_welcome''
          \<longrightarrow> msg_sender m = AI \<and> suffix ''_ai_welcome'' (msg_id m))"

definition registryReserved :: "SessionRegistry \<Rightarrow> bool" where
  "registryReserved reg = (\<forall>(k, s) \<in> set reg. markerReserved (ses_messages s))"

text \<open>A registry as the program writes it: no key twice, every session under its own id.\<close>

definition keyedById :: "SessionRegistry \<Rightarrow> bool" where
  "keyedById reg = (distinct (map fst reg) \<and> (\<forall>(k, s) \<in> set reg. ses_id s = k))"

section \<open>An example configuration\<close>

definition exampleText :: "ErrorMessage \<Rightarrow> string" where
  "exampleText e =
     (case e of
        ERROR_API_KEY_MISSING_BN \<Rightarrow> ''API key missing''
      | ERROR_INIT_FAILED_BN \<Rightarrow> ''Initialisation failed''
      | ERROR_SESSION_NOT_READY_BN \<Rightarrow> ''Session not ready''
      | ERROR_NO_INPUT_BN \<Rightarrow> ''No input''
      | ERROR_SEND_FAILED_BN \<Rightarrow> ''Send failed''
      | ERROR_API_KEY_INVALID_BN \<Rightarrow> ''API key invalid''
      | IMAGE_LIMIT_REACHED_BN \<Rightarrow> ''Image limit reached''
      | IMAGE_GENERATION_LOGIN_REQUIRED_BN \<Rightarrow> ''Login required''
      | IMAGE_GENERATION_FAILED_BN \<Rightarrow> ''Image generation failed'')"

definition cfg0 :: Constants where
  "cfg0 = \<lparr> apiKey = Some ''key'', DEFAULT_MODEL_TYPE = B1_REGULAR,
      GEMINI_TEXT_MODEL_FLASH = ''flash'', DEFAULT_CHAT_TITLE_BN = ''New Chat'',
      INITIAL_WELCOME_MESSAGE_BN = ''Welcome'', SYSTEM_INSTRUCTION_B1_BN = ''general'',
      SYSTEM_INSTRUCTION_B2_BN = ''coding'', IMAGE_QUERY_PROMPT_DEFAULT_BN = ''What is this?'',
      IMAGE_GENERATION_IN_PROGRESS_BN = ''Generating'', IMAGE_REQUEST_SUFFIX_BN = '' request'',
      IMAGE_RESULT_SUFFIX_BN = '' result'', DAILY_IMAGE_GENERATION_LIMIT = 3,
      textOf = exampleText, timezoneOffset = 21600000 \<rparr>"

text \<open>The state when the components mount, and the state after a first load at time 5.\<close>

definition state0 :: AppState where
  "state0 = \<lparr> currentUser = None, isSidebarOpen = False, activeChatId = None, chatSessions = [],
      globalError = None, isChatInitializing = True, chatSessionRef = None, inputValue = [],
      isLoadingBotResponse = False, uploadedImageFile = None, uploadedImagePreview = None,
      isGeneratingImageMode = False, isProcessingImageGen = False, userImageGenData = None,
      storedHistory = None, storedActiveChatId = None, userDocs = Map.empty, remoteCalls = [] \<rparr>"

definition loaded0 :: AppState where
  "loaded0 = initializeChatLogic cfg0 5 True True None None state0"

definition session0 :: ChatSession where
  "session0 = freshSession cfg0 5 None"

text \<open>
  One exchange in the first session (persisted), then a second session started at time 10;
  and a fresh start from that stored history with a recorded active id that is unknown.
\<close>

definition chatted0 :: AppState where
  "chatted0 = persist (handleSendMessage cfg0 7 (Inl None) [(8, Some ''hello'')] 9 Completed
                 (setInputValue ''hi'' loaded0))"

definition twoChats :: AppState where
  "twoChats = startNewChat cfg0 10 True B2_CODING chatted0"

definition chat5 :: ChatSession where
  "chat5 = \<lparr> ses_id = ''5'', ses_title = ''hi'',
      ses_messages =
        [\<lparr> msg_id = ''5_ai_welcome'', msg_text = ''Welcome'', msg_sender = AI, msg_timestamp = 5,
           msg_imageUrl = None, msg_isImageQuery = None, msg_generatedImage = None,
           msg_modelUsed = Some B1_REGULAR \<rparr>,
         \<lparr> msg_id = ''7_user'', msg_text = ''hi'', msg_sender = User, msg_timestamp = 7,
           msg_imageUrl = None, msg_isImageQuery = Some False, msg_generatedImage = None,
           msg_modelUsed = None \<rparr>,
         \<lparr> msg_id = ''7_ai'', msg_text = ''hello'', msg_sender = AI, msg_timestamp = 7,
           msg_imageUrl = None, msg_isImageQuery = None, msg_generatedImage = None,
           msg_modelUsed = Some B1_REGULAR \<rparr>],
      ses_model = B1_REGULAR, ses_timestamp = 9, ses_systemInstruction = ''general'' \<rparr>"


text \<open>
  A send started in the second session at time 12, and the switch to the first session
  while its stream is in flight.
\<close>

definition inflightPrefix :: "AppState \<times> SendClosure option" where
  "inflightPrefix = sendPrefix cfg0 12 (setInputValue ''q'' twoChats)"

definition closure0 :: SendClosure where
  "closure0 = the (snd inflightPrefix)"

definition requested0 :: AppState where
  "requested0 = (case sendRequest closure0 (Inl None) (fst inflightPrefix) of
                   Inr st \<Rightarrow> st | Inl e \<Rightarrow> fst inflightPrefix)"

definition switched0 :: AppState where
  "switched0 = selectChatSession cfg0 True ''5'' requested0"

definition idsAndTexts :: "AppState \<Rightarrow> string \<Rightarrow> (string \<times> string) list option" where
  "idsAndTexts st k =
     map_option (\<lambda>s. map (\<lambda>m. (msg_id m, msg_text m)) (ses_messages s)) (map_of (chatSessions st) k)"




text \<open>
  The number of the local calendar day an instant falls on.
\<close>

definition localDay :: "Constants \<Rightarrow> int \<Rightarrow> int" where
  "localDay cfg t = (t + timezoneOffset cfg) div 86400000"

text \<open>
  \<open>onAuthStateChanged\<close>'s callback, and an example: user u1 signs in, the cached record
  is fetched (there is none yet), and images are requested at given times. The local zone
  of the example is six hours ahead of UTC, so 64800000 is a local midnight.
\<close>

definition onAuthStateChanged :: "string option \<Rightarrow> AppState \<Rightarrow> AppState" where
  "onAuthStateChanged userAuth st = st\<lparr> currentUser := userAuth \<rparr>"

definition user0 :: AppState where
  "user0 = fetchData (onAuthStateChanged (Some ''u1'') loaded0)"

definition genEnv :: "int \<Rightarrow> ImageGenEnv" where
  "genEnv t = \<lparr> ig_now = t, ig_result = Inr ''img'', ig_doneAt = t + 1, ig_setDocOk = True,
                ig_serverTimestamp = t + 2, ig_cachedAt = t + 3 \<rparr>"

definition generate :: "int \<Rightarrow> AppState \<Rightarrow> AppState" where
  "generate t st = handleGenerateImage cfg0 (genEnv t) (setInputValue ''cat'' st)"

definition q1 :: AppState where "q1 = generate 64801000 user0"

definition q2 :: AppState where "q2 = generate 64802000 q1"

definition q3 :: AppState where "q3 = generate 64803000 q2"

definition q4 :: AppState where "q4 = generate 64804000 q3"

definition q5 :: AppState where "q5 = generate 151201000 q4"

text \<open>
  The registry is keyed by id and the session under key \<open>k\<close> has title \<open>T\<close>.
\<close>

definition titled :: "string \<Rightarrow> string \<Rightarrow> SessionRegistry \<Rightarrow> bool" where
  "titled k T reg = (keyedById reg \<and> (\<exists>s. map_of reg k = Some s \<and> ses_title s = T))"

definition titleAt :: "AppState \<Rightarrow> string \<Rightarrow> string option" where
  "titleAt st k = map_option ses_title (map_of (chatSessions st) k)"

text \<open>
  Two sends into the first session, the first with the default title itself as its text;
  and the specification's example sentence, sent and, in a stored session without a title,
  loaded.
\<close>

definition sentDefault0 :: AppState where
  "sentDefault0 = handleSendMessage cfg0 7 (Inl None) [(8, Some ''ok'')] 9 Completed
                    (setInputValue ''New Chat'' loaded0)"

definition sentAgain0 :: AppState where
  "sentAgain0 = handleSendMessage cfg0 10 (Inl None) [(11, Some ''ok'')] 12 Completed
                  (setInputValue ''hello'' sentDefault0)"

definition blackHoles :: string where
  "blackHoles = ''Tell me about black holes and their event horizons in detail''"

definition untitled0 :: ChatSession where
  "untitled0 = chat5\<lparr> ses_title := [],
                 ses_messages := map (\<lambda>m. if msg_sender m = User then m\<lparr> msg_text := blackHoles \<rparr> else m)
                                     (ses_messages chat5) \<rparr>"

text \<open>
  A transformation of a message list that keeps the welcome marker reserved.
\<close>

definition keepsMarker :: "(ChatMessage list \<Rightarrow> ChatMessage list) \<Rightarrow> bool" where
  "keepsMarker f = (\<forall>msgs. markerReserved msgs \<longrightarrow> markerReserved (f msgs))"

text \<open>
  What holds of every state the handlers produce: the registry and the stored registry are
  keyed by id and keep the welcome marker reserved, and without a credential there is no
  remote conversation.
\<close>

definition wellFormed :: "Constants \<Rightarrow> AppState \<Rightarrow> bool" where
  "wellFormed cfg st =
     (keyedById (chatSessions st) \<and> registryReserved (chatSessions st)
      \<and> (case storedHistory st of
            Some (Sessions reg) \<Rightarrow> keyedById reg \<and> registryReserved reg
          | _ \<Rightarrow> True)
      \<and> (truthy (apiKey cfg) \<or> chatSessionRef st = None))"

text \<open>
  The states of the running program: a start with nothing or something unparseable in
  local storage, a restart from what an earlier run has stored, and the handlers and
  effects, each run to its end.
\<close>

inductive reachable :: "Constants \<Rightarrow> AppState \<Rightarrow> bool" for cfg :: Constants where
  start: "reachable cfg (state0\<lparr> userDocs := docs \<rparr>)"
| startCorrupt: "reachable cfg (state0\<lparr> storedHistory := Some Corrupt, storedActiveChatId := a,
                                       userDocs := docs \<rparr>)"
| restart: "reachable cfg st \<Longrightarrow>
            reachable cfg (state0\<lparr> storedHistory := storedHistory st,
                                   storedActiveChatId := storedActiveChatId st,
                                   userDocs := userDocs st \<rparr>)"
| initialize: "reachable cfg st \<Longrightarrow>
            reachable cfg (initializeChatLogic cfg now createOk fallbackOk sid m st)"
| persisted: "reachable cfg st \<Longrightarrow> reachable cfg (persist st)"
| newChat: "reachable cfg st \<Longrightarrow> reachable cfg (startNewChat cfg now createOk m st)"
| select: "reachable cfg st \<Longrightarrow> reachable cfg (selectChatSession cfg createOk k st)"
| modelChange: "reachable cfg st \<Longrightarrow>
            reachable cfg (handleModelChangeOnSidebar cfg now createOk m st)"
| typed: "reachable cfg st \<Longrightarrow> reachable cfg (setInputValue v st)"
| auth: "reachable cfg st \<Longrightarrow> reachable cfg (fetchData (onAuthStateChanged u st))"
| send: "reachable cfg st \<Longrightarrow>
            reachable cfg (handleSendMessage cfg now filePart chunks endAt ending st)"
| image: "reachable cfg st \<Longrightarrow> reachable cfg (handleGenerateImage cfg env st)"

section \<open>The message store\<close>

lemma map_of_ucsm_same:
  "map_of reg (ses_id a) = Some cur \<Longrightarrow>
   map_of (updateCurrentSessionMessages cfg (Some a) now f t reg) (ses_id a) =
     Some (cur\<lparr> ses_messages := f (ses_messages cur),
                ses_title := titleToSet cfg t (f (ses_messages cur)) cur,
                ses_timestamp := now \<rparr>)"
  by (simp add: updateCurrentSessionMessages_def Let_def update_conv')

lemma map_of_ucsm_other:
  "k \<noteq> ses_id a \<Longrightarrow>
   map_of (updateCurrentSessionMessages cfg (Some a) now f t reg) k = map_of reg k"
  by (simp add: updateCurrentSessionMessages_def Let_def update_conv' split: option.splits)

lemma ucsm_absent:
  "map_of reg (ses_id a) = None \<Longrightarrow> updateCurrentSessionMessages cfg (Some a) now f t reg = reg"
  by (simp add: updateCurrentSessionMessages_def)

lemma ucsm_no_session: "updateCurrentSessionMessages cfg None now f t reg = reg"
  by (simp add: updateCurrentSessionMessages_def)

lemma streamTransform_present:
  "\<exists>m \<in> set msgs. msg_id m = P \<Longrightarrow>
   streamTransform cm now P c False msgs = map (appendText P c) msgs"
  by (auto simp: streamTransform_def Let_def appendText_def)

lemma streamTransform_final:
  "\<exists>m \<in> set msgs. msg_id m = P \<Longrightarrow>
   streamTransform cm now P [] True msgs =
     map (\<lambda>m. if msg_id m = P then m\<lparr> msg_modelUsed := Some cm \<rparr> else m) msgs"
  by (auto simp: streamTransform_def Let_def)

lemma streamTransform_absent_empty:
  "\<not> (\<exists>m \<in> set msgs. msg_id m = P) \<Longrightarrow> streamTransform cm now P [] fin msgs = msgs"
  by (auto simp: streamTransform_def Let_def map_idI)

lemma streamTransform_absent:
  "\<not> (\<exists>m \<in> set msgs. msg_id m = P) \<Longrightarrow> c \<noteq> [] \<Longrightarrow>
   streamTransform cm now P c fin msgs =
     msgs @ [\<lparr> msg_id = P, msg_text = c, msg_sender = AI, msg_timestamp = now,
                msg_imageUrl = None, msg_isImageQuery = None, msg_generatedImage = None,
                msg_modelUsed = Some cm \<rparr>]"
  by (auto simp: streamTransform_def Let_def map_idI)

lemma appendText_Nil [simp]: "appendText P [] m = m"
  by (simp add: appendText_def)

lemma msg_id_appendText [simp]: "msg_id (appendText P c m) = msg_id m"
  by (simp add: appendText_def)

lemma appendText_appendText [simp]:
  "appendText P d (appendText P c m) = appendText P (c @ d) m"
  by (simp add: appendText_def)

lemma activeChatSession_keyed:
  "activeChatSession st = Some a \<Longrightarrow> activeChatId st = Some (ses_id a) \<Longrightarrow>
   map_of (chatSessions st) (ses_id a) = Some a"
  by (auto simp: activeChatSession_def split: option.splits if_splits)

section \<open>Sending a message\<close>

lemma sendPrefix_closure:
  assumes "sendPrefix cfg now st = (st1, Some cl)"
  shows "cl_activeChatSession cl = activeChatSession st"
    and "cl_aiMessageId cl = toString now @ ''_ai''"
    and "cl_userMessageText cl \<noteq> []"
    and "cl_uploadedImageFile cl = uploadedImageFile st"
    and "chatSessionRef st1 = chatSessionRef st"
    and "chatSessionRef st \<noteq> None"
    and "truthy (apiKey cfg)"
    and "remoteCalls st1 = remoteCalls st"
  using assms
  by (auto simp: sendPrefix_def Let_def chatSessionsUpdater_def placeholderMessage_def
        split: if_splits)

lemma sendPrefix_messages:
  assumes "sendPrefix cfg now st = (st1, Some cl)"
      and "activeChatSession st = Some a"
      and "map_of (chatSessions st) (ses_id a) = Some a"
  shows "\<exists>s1 um. map_of (chatSessions st1) (ses_id a) = Some s1
          \<and> ses_messages s1 = ses_messages a @ [um, placeholderMessage now (ses_model a)]
          \<and> msg_sender um = User \<and> msg_text um = cl_userMessageText cl
          \<and> msg_id um = toString now @ ''_user''"
  using assms
  by (auto simp: sendPrefix_def Let_def chatSessionsUpdater_def addMessageToCurrentChat_def
        map_of_ucsm_same currentModel_def split: if_splits)

lemma sendRequest_sessions:
  "sendRequest cl filePart st1 = Inr st2 \<Longrightarrow> chatSessions st2 = chatSessions st1"
  by (auto simp: sendRequest_def Let_def split: option.splits sum.splits)

lemma onChunk_session:
  assumes "cl_activeChatSession cl = Some a"
      and "map_of (chatSessions st) (ses_id a) = Some cur"
      and "\<exists>m \<in> set (ses_messages cur). msg_id m = cl_aiMessageId cl"
  shows "\<exists>cur'. map_of (chatSessions (onChunk cfg cl t c st)) (ses_id a) = Some cur'
           \<and> ses_messages cur' = map (appendText (cl_aiMessageId cl) (orElse c [])) (ses_messages cur)"
proof (cases "truthy c")
  case False
  then have "orElse c [] = []"
    by (auto simp: truthy_def orElse_def split: option.splits)
  with False assms show ?thesis
    by (simp add: onChunk_def map_idI)
next
  case True
  with assms show ?thesis
    by (simp add: onChunk_def chatSessionsUpdater_def updateAIMessageStream_def
          map_of_ucsm_same streamTransform_present)
qed

lemma onChunks_session:
  assumes "cl_activeChatSession cl = Some a"
      and "map_of (chatSessions st) (ses_id a) = Some cur"
      and "\<exists>m \<in> set (ses_messages cur). msg_id m = cl_aiMessageId cl"
  shows "\<exists>cur'. map_of (chatSessions (onChunks cfg cl chunks st)) (ses_id a) = Some cur'
           \<and> ses_messages cur' =
               map (appendText (cl_aiMessageId cl) (fragmentText chunks)) (ses_messages cur)"
  using assms
proof (induction chunks arbitrary: st cur)
  case Nil
  then show ?case by (simp add: fragmentText_def map_idI)
next
  case (Cons tc chunks)
  obtain t c where tc: "tc = (t, c)" by (cases tc)
  from onChunk_session[OF Cons.prems, of cfg t c]
  obtain cur1 where c1: "map_of (chatSessions (onChunk cfg cl t c st)) (ses_id a) = Some cur1"
    and m1: "ses_messages cur1 = map (appendText (cl_aiMessageId cl) (orElse c [])) (ses_messages cur)"
    by blast
  from Cons.prems(3) m1 have e1: "\<exists>m \<in> set (ses_messages cur1). msg_id m = cl_aiMessageId cl"
    by auto
  from Cons.IH[OF Cons.prems(1) c1 e1] m1 tc show ?case
    by (simp add: fragmentText_def comp_def)
qed

lemma onStreamEnd_session:
  assumes "cl_activeChatSession cl = Some a"
      and "map_of (chatSessions st) (ses_id a) = Some cur"
      and "\<exists>m \<in> set (ses_messages cur). msg_id m = cl_aiMessageId cl"
  shows "\<exists>cur'. map_of (chatSessions (onStreamEnd cfg cl t st)) (ses_id a) = Some cur'
           \<and> ses_messages cur' =
               map (\<lambda>m. if msg_id m = cl_aiMessageId cl
                         then m\<lparr> msg_modelUsed := Some (ses_model a) \<rparr> else m) (ses_messages cur)"
  using assms
  by (simp add: onStreamEnd_def chatSessionsUpdater_def updateAIMessageStream_def
        map_of_ucsm_same streamTransform_final currentModel_def)

lemma toString_5: "toString 5 = ''5''"
  by (simp add: toString_def digits.simps digitChar_def)

lemma loaded0_sessions: "chatSessions loaded0 = [(''5'', session0)]"
  by (simp add: loaded0_def session0_def initializeChatLogic_def initializeTry_def cfg0_def
        state0_def truthy_def Let_def freshSession_def loadedSessions_def
        createNewChatSessionObject_def orElse_def toString_5)

lemma loaded0_active: "activeChatId loaded0 = Some ''5''"
  by (simp add: loaded0_def initializeChatLogic_def initializeTry_def cfg0_def
        state0_def truthy_def Let_def freshSession_def loadedSessions_def
        createNewChatSessionObject_def orElse_def toString_5)

lemma session0_id: "ses_id session0 = ''5''"
  by (simp add: session0_def freshSession_def createNewChatSessionObject_def orElse_def toString_5)

text \<open>
  C2. A send that reaches the stream and runs to completion with nothing in between: the
  session it was started in has two more messages than before (the user's message and the
  placeholder), and the placeholder, its last message, carries exactly the fragments'
  texts concatenated in the order of arrival, whatever their number and sizes (fragments
  without text or with empty text included).
\<close>

theorem stream_concatenation:
  assumes "activeChatSession st = Some a" and "activeChatId st = Some (ses_id a)"
      and "sendPrefix cfg now st = (st1, Some cl)"
      and "sendRequest cl filePart st1 = Inr st2"
  shows "\<exists>s. map_of (chatSessions (handleSendMessage cfg now filePart chunks endAt Completed st))
                (ses_id a) = Some s
           \<and> length (ses_messages s) = length (ses_messages a) + 2
           \<and> last (ses_messages s) =
               (placeholderMessage now (ses_model a))\<lparr> msg_text := fragmentText chunks \<rparr>"
proof -
  have keyed: "map_of (chatSessions st) (ses_id a) = Some a"
    using assms(1,2) by (rule activeChatSession_keyed)
  have cl: "cl_activeChatSession cl = Some a" "cl_aiMessageId cl = toString now @ ''_ai''"
    using sendPrefix_closure(1,2)[OF assms(3)] assms(1) by simp_all
  obtain s1 um where s1: "map_of (chatSessions st1) (ses_id a) = Some s1"
    and m1: "ses_messages s1 = ses_messages a @ [um, placeholderMessage now (ses_model a)]"
    using sendPrefix_messages[OF assms(3) assms(1) keyed] by blast
  have s2: "map_of (chatSessions st2) (ses_id a) = Some s1"
    using s1 sendRequest_sessions[OF assms(4)] by simp
  have ex: "\<exists>m \<in> set (ses_messages s1). msg_id m = cl_aiMessageId cl"
    using m1 cl(2) by (simp add: placeholderMessage_def)
  obtain s3 where s3: "map_of (chatSessions (onChunks cfg cl chunks st2)) (ses_id a) = Some s3"
    and m3: "ses_messages s3 =
               map (appendText (cl_aiMessageId cl) (fragmentText chunks)) (ses_messages s1)"
    using onChunks_session[OF cl(1) s2 ex] by blast
  have ex3: "\<exists>m \<in> set (ses_messages s3). msg_id m = cl_aiMessageId cl"
    using ex m3 by auto
  obtain s4 where s4: "map_of (chatSessions (onStreamEnd cfg cl endAt (onChunks cfg cl chunks st2)))
                          (ses_id a) = Some s4"
    and m4: "ses_messages s4 =
               map (\<lambda>m. if msg_id m = cl_aiMessageId cl
                         then m\<lparr> msg_modelUsed := Some (ses_model a) \<rparr> else m) (ses_messages s3)"
    using onStreamEnd_session[OF cl(1) s3 ex3] by blast
  have run: "handleSendMessage cfg now filePart chunks endAt Completed st =
               onStreamEnd cfg cl endAt (onChunks cfg cl chunks st2)"
    using assms(3,4) by (simp add: handleSendMessage_def onSettle_def)
  have "length (ses_messages s4) = length (ses_messages a) + 2"
    using m4 m3 m1 by simp
  moreover have "last (ses_messages s4) =
      (placeholderMessage now (ses_model a))\<lparr> msg_text := fragmentText chunks \<rparr>"
    using m4 m3 m1 cl(2) by (simp add: placeholderMessage_def appendText_def)
  ultimately show ?thesis using s4 run by simp
qed

theorem stream_concatenation_witness:
  "\<exists>s. map_of (chatSessions (handleSendMessage cfg0 7 (Inl None)
                 [(8, Some ''Hel''), (9, Some ''lo, ''), (10, Some ''world'')] 11 Completed
                 (setInputValue ''hi'' loaded0))) ''5'' = Some s
       \<and> length (ses_messages s) = 3
       \<and> msg_id (last (ses_messages s)) = ''7_ai''
       \<and> msg_text (last (ses_messages s)) = ''Hello, world''"
proof -
  let ?st = "setInputValue ''hi'' loaded0"
  have h1: "activeChatSession ?st = Some session0"
    by (simp add: activeChatSession_def setInputValue_def loaded0_sessions loaded0_active)
  have h2: "activeChatId ?st = Some (ses_id session0)"
    by (simp add: setInputValue_def loaded0_active session0_id)
  have "snd (sendPrefix cfg0 7 ?st) \<noteq> None"
    by code_simp
  then obtain st1 cl where h3: "sendPrefix cfg0 7 ?st = (st1, Some cl)"
    by (cases "sendPrefix cfg0 7 ?st") auto
  have "cl_uploadedImageFile cl = None"
    using sendPrefix_closure(4)[OF h3] by (simp add: setInputValue_def loaded0_def
        initializeChatLogic_def initializeTry_def cfg0_def state0_def truthy_def Let_def
        freshSession_def loadedSessions_def)
  moreover have "chatSessionRef st1 \<noteq> None"
    using sendPrefix_closure(5,6)[OF h3] by simp
  ultimately obtain st2 where h4: "sendRequest cl (Inl None) st1 = Inr st2"
    by (auto simp: sendRequest_def)
  have seven: "toString 7 = ''7''"
    by (simp add: toString_def digits.simps digitChar_def)
  have len: "length (ses_messages session0) = 1"
    by (simp add: session0_def freshSession_def createNewChatSessionObject_def)
  from stream_concatenation[OF h1 h2 h3 h4, of "[(8, Some ''Hel''), (9, Some ''lo, ''), (10, Some ''world'')]" 11]
  show ?thesis
    by (auto simp add: session0_id fragmentText_def orElse_def placeholderMessage_def seven len
          numeral_3_eq_3)
qed

section \<open>Replaying a session to the remote conversation\<close>

lemma replayTurn_spec:
  "replayTurn m = \<lparr> role = (case msg_sender m of User \<Rightarrow> ''user'' | AI \<Rightarrow> ''model''),
                parts = [TextPart (msg_text m)] \<rparr>"
  by (cases "msg_sender m") (simp_all add: replayTurn_def)

lemma replayFilter_spec:
  assumes "includes_str (msg_id m) ''_ai_welcome'' \<longrightarrow> msg_sender m = AI \<and> suffix ''_ai_welcome'' (msg_id m)"
  shows "replayFilter m \<longleftrightarrow> \<not> isWelcome_spec m \<and> msg_text m \<noteq> []"
proof (cases "suffix ''_ai_welcome'' (msg_id m)")
  case True
  then have "includes_str (msg_id m) ''_ai_welcome''"
    by (simp add: includes_str_def)
  with assms True show ?thesis
    by (simp add: replayFilter_def isWelcome_spec_def)
next
  case False
  with assms have "\<not> includes_str (msg_id m) ''_ai_welcome''" by blast
  with False show ?thesis
    by (cases "msg_sender m") (auto simp: replayFilter_def isWelcome_spec_def)
qed

lemma replayHistory_spec:
  "markerReserved msgs \<Longrightarrow> replayHistory msgs = replay_spec msgs"
  unfolding replayHistory_def replay_spec_def markerReserved_def
  by (induction msgs) (simp_all add: replayFilter_spec replayTurn_spec)

lemma markerReserved_welcome:
  "markerReserved (ses_messages (createNewChatSessionObject cfg now m ident None ttl))"
  by (simp add: markerReserved_def createNewChatSessionObject_def Let_def suffix_def)

lemma replay_spec_welcome:
  "replay_spec (ses_messages (createNewChatSessionObject cfg now m ident None ttl)) = []"
  by (simp add: replay_spec_def createNewChatSessionObject_def Let_def isWelcome_spec_def suffix_def)

lemma replay_spec_fresh: "replay_spec (ses_messages (freshSession cfg now m)) = []"
  by (simp add: freshSession_def replay_spec_welcome)

lemma markerReserved_fresh: "markerReserved (ses_messages (freshSession cfg now m))"
  by (simp add: freshSession_def markerReserved_welcome)

lemma backfillTitle_messages [simp]: "ses_messages (backfillTitle cfg s) = ses_messages s"
  by (simp add: backfillTitle_def)

lemma backfillTitle_instr [simp]: "ses_systemInstruction (backfillTitle cfg s) = ses_systemInstruction s"
  by (simp add: backfillTitle_def)

lemma backfillTitle_id [simp]: "ses_id (backfillTitle cfg s) = ses_id s"
  by (simp add: backfillTitle_def)

lemma backfillTitle_timestamp [simp]: "ses_timestamp (backfillTitle cfg s) = ses_timestamp s"
  by (simp add: backfillTitle_def)

lemma initializeTry_Some:
  assumes "initializeTry cfg now createOk sid m st = Some st'"
  shows "\<exists>loaded a s. loadedSessions cfg st = Some loaded
          \<and> activeChatId st' = Some a \<and> map_of (chatSessions st') a = Some s
          \<and> (chatSessions st' = loaded
               \<or> chatSessions st' = AList.update (ses_id (freshSession cfg now m)) (freshSession cfg now m) loaded
                  \<and> s = freshSession cfg now m)
          \<and> chatSessionRef st' = Some (chatsCreate cfg (ses_systemInstruction s) (replayHistory (ses_messages s)))
          \<and> globalError st' = None \<and> createOk"
  using assms
  by (auto simp: initializeTry_def Let_def update_conv' truthy_def orElse_def
        split: option.splits if_splits)

lemma registryReserved_backfill:
  "registryReserved reg \<Longrightarrow> registryReserved (map (\<lambda>(k, s). (k, backfillTitle cfg s)) reg)"
  by (auto simp: registryReserved_def)

lemma registryReserved_lookup:
  "registryReserved reg \<Longrightarrow> map_of reg k = Some s \<Longrightarrow> markerReserved (ses_messages s)"
  by (auto simp: registryReserved_def dest: map_of_SomeD)

lemma registryReserved_update:
  "registryReserved reg \<Longrightarrow> markerReserved (ses_messages s) \<Longrightarrow>
   registryReserved (AList.update k s reg)"
  by (induction reg) (auto simp: registryReserved_def)

lemma initializeChatLogic_rebinds:
  assumes key: "truthy (apiKey cfg)"
      and stored: "\<forall>reg. storedHistory st = Some (Sessions reg) \<longrightarrow> registryReserved reg"
  shows "\<exists>a s. activeChatId (initializeChatLogic cfg now True True sid m st) = Some a
           \<and> map_of (chatSessions (initializeChatLogic cfg now True True sid m st)) a = Some s
           \<and> chatSessionRef (initializeChatLogic cfg now True True sid m st) =
               Some (chatsCreate cfg (ses_systemInstruction s) (replay_spec (ses_messages s)))"
proof (cases "initializeTry cfg now True sid m st")
  case None
  with key show ?thesis
    by (simp add: initializeChatLogic_def Let_def replay_spec_fresh)
next
  case (Some st')
  from initializeTry_Some[OF Some] obtain loaded a s where
    l: "loadedSessions cfg st = Some loaded" and a: "activeChatId st' = Some a"
    and s: "map_of (chatSessions st') a = Some s"
    and regs: "chatSessions st' = loaded
               \<or> chatSessions st' = AList.update (ses_id (freshSession cfg now m)) (freshSession cfg now m) loaded
                  \<and> s = freshSession cfg now m"
    and r: "chatSessionRef st' =
              Some (chatsCreate cfg (ses_systemInstruction s) (replayHistory (ses_messages s)))"
    by blast
  have "registryReserved loaded"
    using l stored
    by (auto simp: loadedSessions_def registryReserved_backfill
          split: option.splits StoredHistory.splits) (simp add: registryReserved_def)
  with regs s have "markerReserved (ses_messages s)"
    by (auto simp: markerReserved_fresh dest: registryReserved_lookup)
  then have "replayHistory (ses_messages s) = replay_spec (ses_messages s)"
    by (rule replayHistory_spec)
  with key Some a s r show ?thesis
    by (simp add: initializeChatLogic_def Let_def)
qed

lemma selectChatSession_rebinds:
  assumes "truthy (apiKey cfg)" and "Some sessionId \<noteq> activeChatId st"
      and "map_of (chatSessions st) sessionId = Some s"
  shows "activeChatId (selectChatSession cfg True sessionId st) = Some sessionId"
    and "chatSessions (selectChatSession cfg True sessionId st) = chatSessions st"
    and "chatSessionRef (selectChatSession cfg True sessionId st) =
           Some (chatsCreate cfg (ses_systemInstruction s) (replayHistory (ses_messages s)))"
  using assms by (simp_all add: selectChatSession_def Let_def)

lemma twoChats_chat5: "map_of (chatSessions twoChats) ''5'' = Some chat5"
  by code_simp

lemma twoChats_active: "activeChatId twoChats = Some ''10''"
  by code_simp

lemma twoChats_stored: "storedHistory twoChats = Some (Sessions [(''5'', chat5)])"
  by code_simp

lemma twoChats_reserved: "registryReserved (chatSessions twoChats)"
  by code_simp

lemma cfg0_key: "truthy (apiKey cfg0)"
  by (simp add: truthy_def cfg0_def)

text \<open>
  C6. Every rebind replays the session's history by the replay rule. After
  \<open>initializeChatLogic\<close> (with a credential, the remote conversation constructed) the
  handle is bound to the active session's system instruction and to that session's
  messages, in order, without the welcome message and without messages of empty text, as
  "user" and "model" turns; and so it is after \<open>selectChatSession\<close> of another, known
  session. The ids are those the program gives: the welcome marker occurs only as the
  suffix of an AI message's id.
\<close>

theorem replay_on_rebind:
  assumes key: "truthy (apiKey cfg)"
      and stored: "\<forall>reg. storedHistory st = Some (Sessions reg) \<longrightarrow> registryReserved reg"
      and current: "registryReserved (chatSessions st)"
  shows "(\<exists>a s. activeChatId (initializeChatLogic cfg now True True sid m st) = Some a
            \<and> map_of (chatSessions (initializeChatLogic cfg now True True sid m st)) a = Some s
            \<and> chatSessionRef (initializeChatLogic cfg now True True sid m st) =
                Some (chatsCreate cfg (ses_systemInstruction s) (replay_spec (ses_messages s))))
       \<and> (\<forall>sessionId s.
            Some sessionId \<noteq> activeChatId st \<and> map_of (chatSessions st) sessionId = Some s \<longrightarrow>
              activeChatId (selectChatSession cfg True sessionId st) = Some sessionId
            \<and> map_of (chatSessions (selectChatSession cfg True sessionId st)) sessionId = Some s
            \<and> chatSessionRef (selectChatSession cfg True sessionId st) =
                Some (chatsCreate cfg (ses_systemInstruction s) (replay_spec (ses_messages s))))"
proof (intro conjI allI impI)
  show "\<exists>a s. activeChatId (initializeChatLogic cfg now True True sid m st) = Some a
            \<and> map_of (chatSessions (initializeChatLogic cfg now True True sid m st)) a = Some s
            \<and> chatSessionRef (initializeChatLogic cfg now True True sid m st) =
                Some (chatsCreate cfg (ses_systemInstruction s) (replay_spec (ses_messages s)))"
    using key stored by (rule initializeChatLogic_rebinds)
next
  fix sessionId s
  assume h: "Some sessionId \<noteq> activeChatId st \<and> map_of (chatSessions st) sessionId = Some s"
  then have r: "replayHistory (ses_messages s) = replay_spec (ses_messages s)"
    using current by (auto intro: replayHistory_spec dest: registryReserved_lookup)
  from h show "activeChatId (selectChatSession cfg True sessionId st) = Some sessionId"
    using selectChatSession_rebinds(1)[OF key] by blast
  from h show "map_of (chatSessions (selectChatSession cfg True sessionId st)) sessionId = Some s"
    using selectChatSession_rebinds(2)[OF key] by simp
  from h r show "chatSessionRef (selectChatSession cfg True sessionId st) =
                Some (chatsCreate cfg (ses_systemInstruction s) (replay_spec (ses_messages s)))"
    using selectChatSession_rebinds(3)[OF key] by simp
qed

theorem replay_on_rebind_witness:
  "map_of (chatSessions twoChats) ''5'' = Some chat5
   \<and> map (\<lambda>m. (msg_sender m, msg_text m)) (ses_messages chat5) =
        [(AI, ''Welcome''), (User, ''hi''), (AI, ''hello'')]
   \<and> chatSessionRef (selectChatSession cfg0 True ''5'' twoChats) =
        Some \<lparr> chat_model = ''flash'', chat_systemInstruction = ''general'',
               chat_history = [\<lparr> role = ''user'', parts = [TextPart ''hi''] \<rparr>,
                               \<lparr> role = ''model'', parts = [TextPart ''hello''] \<rparr>] \<rparr>"
proof -
  have stored: "\<forall>reg. storedHistory twoChats = Some (Sessions reg) \<longrightarrow> registryReserved reg"
  proof -
    have "registryReserved [(''5'', chat5)]" by code_simp
    then show ?thesis by (simp add: twoChats_stored)
  qed
  have other: "Some ''5'' \<noteq> activeChatId twoChats"
    by (simp add: twoChats_active)
  from replay_on_rebind[OF cfg0_key stored twoChats_reserved, of 20 None None] other twoChats_chat5
  have "chatSessionRef (selectChatSession cfg0 True ''5'' twoChats) =
          Some (chatsCreate cfg0 (ses_systemInstruction chat5) (replay_spec (ses_messages chat5)))"
    by blast
  moreover have "replay_spec (ses_messages chat5) =
      [\<lparr> role = ''user'', parts = [TextPart ''hi''] \<rparr>, \<lparr> role = ''model'', parts = [TextPart ''hello''] \<rparr>]"
    by code_simp
  ultimately show ?thesis
    by (simp add: twoChats_chat5 chatsCreate_def chat5_def cfg0_def)
qed

section \<open>Loading the registry\<close>





lemma keyedById_backfill:
  "keyedById reg \<Longrightarrow> keyedById (map (\<lambda>(k, s). (k, backfillTitle cfg s)) reg)"
  by (auto simp: keyedById_def comp_def case_prod_unfold)












section \<open>Changing the model\<close>


lemma startNewChat_sessions:
  "chatSessions (startNewChat cfg now createOk m st) =
     AList.update (ses_id (createNewChatSessionObject cfg now m None None None))
       (createNewChatSessionObject cfg now m None None None) (chatSessions st)"
  by (simp add: startNewChat_def Let_def)


lemma createNew_default:
  "createNewChatSessionObject cfg now m None None None =
     \<lparr> ses_id = toString now, ses_title = DEFAULT_CHAT_TITLE_BN cfg,
       ses_messages = [\<lparr> msg_id = toString now @ ''_ai_welcome'',
                         msg_text = INITIAL_WELCOME_MESSAGE_BN cfg, msg_sender = AI,
                         msg_timestamp = now, msg_imageUrl = None, msg_isImageQuery = None,
                         msg_generatedImage = None, msg_modelUsed = Some m \<rparr>],
       ses_model = m, ses_timestamp = now,
       ses_systemInstruction = getSystemInstruction cfg m \<rparr>"
  by (simp add: createNewChatSessionObject_def orElse_def)


lemma toString_10: "toString 10 = ''10''"
  by (simp add: toString_def digits.simps digitChar_def)



section \<open>Fragments of a stream that arrive late\<close>

text \<open>
  After the switch from session 10 to session 5 the fragment still lands in session 10's
  placeholder; and in a registry where session 10 no longer holds the placeholder, the
  fragment creates a message with the placeholder's id.
\<close>

theorem stale_fragment_counterexample:
  "activeChatId requested0 = Some ''10'' \<and> activeChatId switched0 = Some ''5''
   \<and> cl_aiMessageId closure0 = ''12_ai''
   \<and> idsAndTexts switched0 ''10'' =
        Some [(''10_ai_welcome'', ''Welcome''), (''12_user'', ''q''), (''12_ai'', '''')]
   \<and> idsAndTexts (onChunk cfg0 closure0 13 (Some ''late'') switched0) ''10'' =
        Some [(''10_ai_welcome'', ''Welcome''), (''12_user'', ''q''), (''12_ai'', ''late'')]
   \<and> idsAndTexts twoChats ''10'' = Some [(''10_ai_welcome'', ''Welcome'')]
   \<and> idsAndTexts (onChunk cfg0 closure0 13 (Some ''late'') twoChats) ''10'' =
        Some [(''10_ai_welcome'', ''Welcome''), (''12_ai'', ''late'')]"
  by code_simp

lemma selectChatSession_sessions [simp]:
  "chatSessions (selectChatSession cfg createOk sessionId st) = chatSessions st"
  by (simp add: selectChatSession_def Let_def split: option.splits)

lemma onChunk_other:
  "cl_activeChatSession cl = Some a \<Longrightarrow> k \<noteq> ses_id a \<Longrightarrow>
   map_of (chatSessions (onChunk cfg cl t c st)) k = map_of (chatSessions st) k"
  by (simp add: onChunk_def chatSessionsUpdater_def updateAIMessageStream_def map_of_ucsm_other)

lemma onChunk_noop:
  "cl_activeChatSession cl = Some a \<Longrightarrow>
   map_of (chatSessions st) (ses_id a) = None \<or> \<not> truthy c \<Longrightarrow>
   onChunk cfg cl t c st = st"
  by (auto simp: onChunk_def chatSessionsUpdater_def updateAIMessageStream_def ucsm_absent)

lemma truthy_orElse: "truthy c \<Longrightarrow> orElse c [] \<noteq> []"
  by (auto simp: truthy_def orElse_def split: option.splits)

lemma onChunk_stale:
  assumes "cl_activeChatSession cl = Some a"
      and "map_of (chatSessions st) (ses_id a) = Some cur" and "truthy c"
  shows "\<exists>cur'. map_of (chatSessions (onChunk cfg cl t c st)) (ses_id a) = Some cur'
           \<and> ses_messages cur' =
               (if \<exists>m \<in> set (ses_messages cur). msg_id m = cl_aiMessageId cl
                then map (appendText (cl_aiMessageId cl) (orElse c [])) (ses_messages cur)
                else ses_messages cur @
                       [\<lparr> msg_id = cl_aiMessageId cl, msg_text = orElse c [], msg_sender = AI,
                          msg_timestamp = t, msg_imageUrl = None, msg_isImageQuery = None,
                          msg_generatedImage = None, msg_modelUsed = Some (ses_model a) \<rparr>])"
proof (cases "\<exists>m \<in> set (ses_messages cur). msg_id m = cl_aiMessageId cl")
  case True
  with assms show ?thesis
    by (simp add: onChunk_def chatSessionsUpdater_def updateAIMessageStream_def
          map_of_ucsm_same streamTransform_present)
next
  case False
  with assms truthy_orElse[OF assms(3)] show ?thesis
    by (simp add: onChunk_def chatSessionsUpdater_def updateAIMessageStream_def
          map_of_ucsm_same streamTransform_absent currentModel_def)
qed

text \<open>
  C1 (as the code has it). Switching the active session does not stop a stream in flight.
  A fragment that arrives after the switch never changes any session other than the one
  the send was started in, so nothing is created in the newly active session; it changes
  nothing when it has no text or when the originating session is no longer in the
  registry. Otherwise it is applied to the originating session: its text is appended to
  every message there that carries the placeholder's id, and when no such message is left,
  a new AI message with that id is appended.
\<close>

theorem stale_fragment:
  fixes cfg cl t c createOk other st
  defines "st' \<equiv> onChunk cfg cl t c (selectChatSession cfg createOk other st)"
  assumes origin: "cl_activeChatSession cl = Some a"
  shows "(\<forall>k. k \<noteq> ses_id a \<longrightarrow> map_of (chatSessions st') k = map_of (chatSessions st) k)
       \<and> (map_of (chatSessions st) (ses_id a) = None \<or> \<not> truthy c \<longrightarrow>
            chatSessions st' = chatSessions st)
       \<and> (\<forall>cur. map_of (chatSessions st) (ses_id a) = Some cur \<and> truthy c \<longrightarrow>
            (\<exists>cur'. map_of (chatSessions st') (ses_id a) = Some cur'
               \<and> ses_messages cur' =
                   (if \<exists>m \<in> set (ses_messages cur). msg_id m = cl_aiMessageId cl
                    then map (appendText (cl_aiMessageId cl) (orElse c [])) (ses_messages cur)
                    else ses_messages cur @
                           [\<lparr> msg_id = cl_aiMessageId cl, msg_text = orElse c [], msg_sender = AI,
                              msg_timestamp = t, msg_imageUrl = None, msg_isImageQuery = None,
                              msg_generatedImage = None, msg_modelUsed = Some (ses_model a) \<rparr>])))"
proof (intro conjI allI impI)
  fix k assume "k \<noteq> ses_id a"
  then show "map_of (chatSessions st') k = map_of (chatSessions st) k"
    unfolding st'_def using onChunk_other[OF origin] by simp
next
  assume "map_of (chatSessions st) (ses_id a) = None \<or> \<not> truthy c"
  then have "map_of (chatSessions (selectChatSession cfg createOk other st)) (ses_id a) = None
             \<or> \<not> truthy c" by simp
  from onChunk_noop[OF origin this] show "chatSessions st' = chatSessions st"
    unfolding st'_def by simp
next
  fix cur assume h: "map_of (chatSessions st) (ses_id a) = Some cur \<and> truthy c"
  then have "map_of (chatSessions (selectChatSession cfg createOk other st)) (ses_id a) = Some cur"
    by simp
  from onChunk_stale[OF origin this] h
  show "\<exists>cur'. map_of (chatSessions st') (ses_id a) = Some cur'
               \<and> ses_messages cur' =
                   (if \<exists>m \<in> set (ses_messages cur). msg_id m = cl_aiMessageId cl
                    then map (appendText (cl_aiMessageId cl) (orElse c [])) (ses_messages cur)
                    else ses_messages cur @
                           [\<lparr> msg_id = cl_aiMessageId cl, msg_text = orElse c [], msg_sender = AI,
                              msg_timestamp = t, msg_imageUrl = None, msg_isImageQuery = None,
                              msg_generatedImage = None, msg_modelUsed = Some (ses_model a) \<rparr>])"
    unfolding st'_def by blast
qed

theorem stale_fragment_witness:
  "cl_activeChatSession closure0 = Some (createNewChatSessionObject cfg0 10 B2_CODING None None None)
   \<and> activeChatId (selectChatSession cfg0 True ''5'' requested0) = Some ''5''
   \<and> map_of (chatSessions (onChunk cfg0 closure0 13 (Some ''late'')
                 (selectChatSession cfg0 True ''5'' requested0))) ''5''
        = map_of (chatSessions requested0) ''5''"
proof -
  have o: "cl_activeChatSession closure0 =
             Some (createNewChatSessionObject cfg0 10 B2_CODING None None None)"
    by code_simp
  have i: "ses_id (createNewChatSessionObject cfg0 10 B2_CODING None None None) = ''10''"
    by (simp add: createNew_default toString_10)
  have a: "activeChatId (selectChatSession cfg0 True ''5'' requested0) = Some ''5''"
    by code_simp
  from stale_fragment[OF o, of cfg0 13 "Some ''late''" True "''5''" requested0] i
  have "map_of (chatSessions (onChunk cfg0 closure0 13 (Some ''late'')
                 (selectChatSession cfg0 True ''5'' requested0))) ''5''
        = map_of (chatSessions requested0) ''5''"
    by simp
  with o a show ?thesis by blast
qed

section \<open>A send that fails\<close>

lemma sendErrorOf_cases:
  "sendErrorOf e =
     (if \<exists>msg. e = Some msg \<and> includes_str msg ''API key not valid''
      then ERROR_API_KEY_INVALID_BN else ERROR_SEND_FAILED_BN)"
  by (cases e) (auto simp: sendErrorOf_def truthy_def orElse_def includes_str_def)

lemma onStreamError_session:
  assumes "cl_activeChatSession cl = Some a"
      and "map_of (chatSessions st) (ses_id a) = Some cur"
  shows "\<exists>cur'. map_of (chatSessions (onStreamError cfg cl t e st)) (ses_id a) = Some cur'
           \<and> ses_messages cur' =
               map (\<lambda>msg. if msg_id msg = cl_aiMessageId cl
                           then msg\<lparr> msg_text := textOf cfg (sendErrorOf e),
                                     msg_modelUsed := Some (ses_model a) \<rparr>
                           else msg) (ses_messages cur)"
  using assms
  by (simp add: onStreamError_def Let_def chatSessionsUpdater_def map_of_ucsm_same currentModel_def)

lemma onStreamError_flags:
  "globalError (onStreamError cfg cl t e st) = Some (sendErrorOf e)"
  "isLoadingBotResponse (onStreamError cfg cl t e st) = False"
  by (simp_all add: onStreamError_def Let_def chatSessionsUpdater_def)

text \<open>
  C8. When a send fails, be it before the request, when the request is made, or in the
  middle of the stream, the error is put on the global error surface - the
  invalid-credential message when the failure's message contains "API key not valid", the
  generic send-failure message otherwise - and the placeholder, still the last message of
  the session, has that message as its whole text: the text accumulated from the fragments
  is gone. The busy flag is cleared.
\<close>

theorem send_failure:
  fixes cfg now filePart chunks endAt ending st
  defines "st' \<equiv> handleSendMessage cfg now filePart chunks endAt ending st"
  assumes "activeChatSession st = Some a" and "activeChatId st = Some (ses_id a)"
      and "sendPrefix cfg now st = (st1, Some cl)"
      and failed: "sendRequest cl filePart st1 = Inl e
                   \<or> (\<exists>st2. sendRequest cl filePart st1 = Inr st2 \<and> ending = Failed e)"
  shows "globalError st' = Some (sendErrorOf e)
       \<and> sendErrorOf e =
           (if \<exists>msg. e = Some msg \<and> includes_str msg ''API key not valid''
            then ERROR_API_KEY_INVALID_BN else ERROR_SEND_FAILED_BN)
       \<and> \<not> isLoadingBotResponse st'
       \<and> (\<exists>s. map_of (chatSessions st') (ses_id a) = Some s
              \<and> length (ses_messages s) = length (ses_messages a) + 2
              \<and> last (ses_messages s) =
                  (placeholderMessage now (ses_model a))\<lparr> msg_text := textOf cfg (sendErrorOf e) \<rparr>)"
proof -
  have keyed: "map_of (chatSessions st) (ses_id a) = Some a"
    using assms(2,3) by (rule activeChatSession_keyed)
  have cl: "cl_activeChatSession cl = Some a" "cl_aiMessageId cl = toString now @ ''_ai''"
    using sendPrefix_closure(1,2)[OF assms(4)] assms(2) by simp_all
  obtain s1 um where s1: "map_of (chatSessions st1) (ses_id a) = Some s1"
    and m1: "ses_messages s1 = ses_messages a @ [um, placeholderMessage now (ses_model a)]"
    using sendPrefix_messages[OF assms(4) assms(2) keyed] by blast
  have ex: "\<exists>m \<in> set (ses_messages s1). msg_id m = cl_aiMessageId cl"
    using m1 cl(2) by (simp add: placeholderMessage_def)
  obtain stE where run: "st' = onStreamError cfg cl endAt e stE"
    and sE: "\<exists>s3. map_of (chatSessions stE) (ses_id a) = Some s3
               \<and> ses_messages s3 = map (appendText (cl_aiMessageId cl) (fragmentText chunks))
                                        (ses_messages s1)
             \<or> map_of (chatSessions stE) (ses_id a) = Some s1"
  proof (cases "sendRequest cl filePart st1")
    case (Inl e')
    with failed have "e' = e" by auto
    with Inl assms(4) have "st' = onStreamError cfg cl endAt e st1"
      by (simp add: st'_def handleSendMessage_def)
    with s1 that show ?thesis by blast
  next
    case (Inr st2)
    with failed have en: "ending = Failed e" by auto
    have s2: "map_of (chatSessions st2) (ses_id a) = Some s1"
      using s1 sendRequest_sessions[OF Inr] by simp
    from onChunks_session[OF cl(1) s2 ex, of cfg chunks]
    obtain s3 where "map_of (chatSessions (onChunks cfg cl chunks st2)) (ses_id a) = Some s3"
      and "ses_messages s3 =
             map (appendText (cl_aiMessageId cl) (fragmentText chunks)) (ses_messages s1)"
      by blast
    moreover have "st' = onStreamError cfg cl endAt e (onChunks cfg cl chunks st2)"
      using Inr en assms(4) by (simp add: st'_def handleSendMessage_def onSettle_def)
    ultimately show ?thesis using that by blast
  qed
  from sE obtain s3 where s3: "map_of (chatSessions stE) (ses_id a) = Some s3"
    and m3: "ses_messages s3 = map (appendText (cl_aiMessageId cl) (fragmentText chunks))
                                        (ses_messages s1)
             \<or> ses_messages s3 = ses_messages s1"
    by blast
  from onStreamError_session[OF cl(1) s3, of cfg endAt e]
  obtain s4 where s4: "map_of (chatSessions st') (ses_id a) = Some s4"
    and m4: "ses_messages s4 =
               map (\<lambda>msg. if msg_id msg = cl_aiMessageId cl
                           then msg\<lparr> msg_text := textOf cfg (sendErrorOf e),
                                     msg_modelUsed := Some (ses_model a) \<rparr>
                           else msg) (ses_messages s3)"
    unfolding run by blast
  have len: "length (ses_messages s4) = length (ses_messages a) + 2"
    using m4 m3 m1 by auto
  have lst: "last (ses_messages s4) =
      (placeholderMessage now (ses_model a))\<lparr> msg_text := textOf cfg (sendErrorOf e) \<rparr>"
    using m4 m3 m1 cl(2) by (auto simp: placeholderMessage_def appendText_def)
  show ?thesis
    using s4 len lst onStreamError_flags[of cfg cl endAt e stE] sendErrorOf_cases[of e]
    unfolding run by blast
qed

lemma hi_active: "activeChatSession (setInputValue ''hi'' loaded0) = Some session0"
  by (simp add: activeChatSession_def setInputValue_def loaded0_sessions loaded0_active)

lemma hi_activeId: "activeChatId (setInputValue ''hi'' loaded0) = Some (ses_id session0)"
  by (simp add: setInputValue_def loaded0_active session0_id)

lemma hi_streams:
  "\<exists>st1 cl st2. sendPrefix cfg0 7 (setInputValue ''hi'' loaded0) = (st1, Some cl)
       \<and> sendRequest cl (Inl None) st1 = Inr st2"
proof -
  let ?st = "setInputValue ''hi'' loaded0"
  have "snd (sendPrefix cfg0 7 ?st) \<noteq> None"
    by code_simp
  then obtain st1 cl where h3: "sendPrefix cfg0 7 ?st = (st1, Some cl)"
    by (cases "sendPrefix cfg0 7 ?st") auto
  have "uploadedImageFile ?st = None"
    by code_simp
  then have "cl_uploadedImageFile cl = None"
    using sendPrefix_closure(4)[OF h3] by simp
  moreover have "chatSessionRef st1 \<noteq> None"
    using sendPrefix_closure(5,6)[OF h3] by simp
  ultimately obtain st2 where "sendRequest cl (Inl None) st1 = Inr st2"
    by (auto simp: sendRequest_def)
  with h3 show ?thesis by blast
qed

lemma toString_7: "toString 7 = ''7''"
  by (simp add: toString_def digits.simps digitChar_def)

theorem send_failure_witness:
  "globalError (handleSendMessage cfg0 7 (Inl None) [(8, Some ''par''), (9, Some ''tial'')] 10
                  (Failed (Some ''400: API key not valid.'')) (setInputValue ''hi'' loaded0))
     = Some ERROR_API_KEY_INVALID_BN
   \<and> (\<exists>s. map_of (chatSessions
              (handleSendMessage cfg0 7 (Inl None) [(8, Some ''par''), (9, Some ''tial'')] 10
                  (Failed (Some ''400: API key not valid.'')) (setInputValue ''hi'' loaded0))) ''5''
            = Some s
          \<and> msg_id (last (ses_messages s)) = ''7_ai''
          \<and> msg_text (last (ses_messages s)) = ''API key invalid'')"
proof -
  obtain st1 cl st2 where h3: "sendPrefix cfg0 7 (setInputValue ''hi'' loaded0) = (st1, Some cl)"
    and h4: "sendRequest cl (Inl None) st1 = Inr st2"
    using hi_streams by blast
  have f: "sendRequest cl (Inl None) st1 = Inl (Some ''400: API key not valid.'')
           \<or> (\<exists>st2. sendRequest cl (Inl None) st1 = Inr st2
                 \<and> Failed (Some ''400: API key not valid.'') = Failed (Some ''400: API key not valid.''))"
    using h4 by simp
  have e: "sendErrorOf (Some ''400: API key not valid.'') = ERROR_API_KEY_INVALID_BN"
    by code_simp
  have t: "textOf cfg0 ERROR_API_KEY_INVALID_BN = ''API key invalid''"
    by (simp add: cfg0_def exampleText_def)
  from send_failure[OF hi_active hi_activeId h3 f, of "[(8, Some ''par''), (9, Some ''tial'')]" 10]
  show ?thesis
    by (auto simp add: e t session0_id placeholderMessage_def toString_7)
qed

section \<open>Sending without a credential\<close>

text \<open>Without a credential no handler ever creates the remote conversation.\<close>

lemma no_credential_no_handle:
  assumes "\<not> truthy (apiKey cfg)" and "chatSessionRef st = None"
  shows "chatSessionRef (initializeChatLogic cfg now ok fb sid m st) = None"
    and "chatSessionRef (startNewChat cfg now ok mt st) = None"
    and "chatSessionRef (selectChatSession cfg ok k st) = None"
    and "chatSessionRef (handleModelChangeOnSidebar cfg now ok mt st) = None"
  using assms
  by (simp_all add: initializeChatLogic_def startNewChat_def selectChatSession_def
        handleModelChangeOnSidebar_def Let_def split: option.splits)

text \<open>
  Without the remote conversation, a send makes no remote call and leaves the registry as
  it is; what it puts on the error surface is the session-not-ready message (or nothing,
  when the input is empty or another exchange is running). The later check of the
  credential is never reached.
\<close>

lemma send_without_handle:
  assumes "chatSessionRef st = None"
  shows "handleSendMessage cfg now filePart chunks endAt ending st =
           (if (trim (inputValue st) = [] \<and> uploadedImageFile st = None)
               \<or> isLoadingBotResponse st \<or> isProcessingImageGen st
            then st else st\<lparr> globalError := Some ERROR_SESSION_NOT_READY_BN \<rparr>)"
  using assms by (simp add: handleSendMessage_def sendPrefix_def Let_def)

lemma send_without_credential:
  assumes "\<not> truthy (apiKey cfg)" and "chatSessionRef st = None"
  shows "remoteCalls (handleSendMessage cfg now filePart chunks endAt ending st) = remoteCalls st"
    and "chatSessions (handleSendMessage cfg now filePart chunks endAt ending st) = chatSessions st"
    and "storedHistory (handleSendMessage cfg now filePart chunks endAt ending st) = storedHistory st"
    and "globalError (handleSendMessage cfg now filePart chunks endAt ending st) = globalError st
         \<or> globalError (handleSendMessage cfg now filePart chunks endAt ending st)
              = Some ERROR_SESSION_NOT_READY_BN"
  using assms(2) by (simp_all add: send_without_handle)


section \<open>Image generation and the daily quota\<close>

lemma chatSessionsUpdater_fields [simp]:
  "globalError (chatSessionsUpdater f st) = globalError st"
  "remoteCalls (chatSessionsUpdater f st) = remoteCalls st"
  "userImageGenData (chatSessionsUpdater f st) = userImageGenData st"
  "userDocs (chatSessionsUpdater f st) = userDocs st"
  "isProcessingImageGen (chatSessionsUpdater f st) = isProcessingImageGen st"
  "isLoadingBotResponse (chatSessionsUpdater f st) = isLoadingBotResponse st"
  "currentUser (chatSessionsUpdater f st) = currentUser st"
  "inputValue (chatSessionsUpdater f st) = inputValue st"
  "activeChatId (chatSessionsUpdater f st) = activeChatId st"
  "chatSessionRef (chatSessionsUpdater f st) = chatSessionRef st"
  by (simp_all add: chatSessionsUpdater_def)

lemma imageGenFailed_fields [simp]:
  "globalError (imageGenFailed cfg acs now aid st) = Some IMAGE_GENERATION_FAILED_BN"
  "userImageGenData (imageGenFailed cfg acs now aid st) = userImageGenData st"
  "userDocs (imageGenFailed cfg acs now aid st) = userDocs st"
  "remoteCalls (imageGenFailed cfg acs now aid st) = remoteCalls st"
  by (simp_all add: imageGenFailed_def)

lemma handleGenerateImage_error:
  "globalError (handleGenerateImage cfg env st) =
     (if trim (inputValue st) = [] \<or> isLoadingBotResponse st \<or> isProcessingImageGen st
      then globalError st
      else if \<not> truthy (apiKey cfg) then Some ERROR_API_KEY_MISSING_BN
      else if currentUser st = None then Some IMAGE_GENERATION_LOGIN_REQUIRED_BN
      else if DAILY_IMAGE_GENERATION_LIMIT cfg \<le> currentCount cfg (ig_now env) (userImageGenData st)
      then Some IMAGE_LIMIT_REACHED_BN
      else if (\<exists>img. ig_result env = Inr img) \<and> ig_setDocOk env
              \<and> newCountToday cfg (ig_doneAt env) (userImageGenData st) \<noteq> None
      then None else Some IMAGE_GENERATION_FAILED_BN)"
  by (auto simp: handleGenerateImage_def Let_def split: option.splits sum.splits)

lemma handleGenerateImage_rejected:
  assumes "trim (inputValue st) = [] \<or> isLoadingBotResponse st \<or> isProcessingImageGen st
           \<or> \<not> truthy (apiKey cfg) \<or> currentUser st = None
           \<or> DAILY_IMAGE_GENERATION_LIMIT cfg \<le> currentCount cfg (ig_now env) (userImageGenData st)"
  shows "handleGenerateImage cfg env st =
           st\<lparr> globalError := globalError (handleGenerateImage cfg env st) \<rparr>"
  using assms by (auto simp: handleGenerateImage_def Let_def split: option.splits)

text \<open>
  C5. When the request is rejected because of the quota or because nobody is signed in,
  the state is the state before with only the error surface changed: no remote call has
  been logged, no session has a new message, and neither the cached quota record nor the
  per-user document has changed. For a user who is not signed in, a request that gets past
  the empty-prompt, busy and credential guards is rejected with the login message whatever
  the cached record and the limit are: the quota is not looked at.
\<close>

theorem image_rejection:
  fixes cfg env st
  defines "st' \<equiv> handleGenerateImage cfg env st"
  shows "(globalError st' = Some IMAGE_LIMIT_REACHED_BN
          \<or> globalError st' = Some IMAGE_GENERATION_LOGIN_REQUIRED_BN \<longrightarrow>
            st' = st\<lparr> globalError := globalError st' \<rparr>
          \<and> remoteCalls st' = remoteCalls st \<and> chatSessions st' = chatSessions st
          \<and> userImageGenData st' = userImageGenData st \<and> userDocs st' = userDocs st)
       \<and> (currentUser st = None \<and> trim (inputValue st) \<noteq> [] \<and> \<not> isLoadingBotResponse st
          \<and> \<not> isProcessingImageGen st \<and> truthy (apiKey cfg) \<longrightarrow>
            (\<forall>q lim. handleGenerateImage (cfg\<lparr> DAILY_IMAGE_GENERATION_LIMIT := lim \<rparr>) env
                         (st\<lparr> userImageGenData := q \<rparr>)
                      = st\<lparr> userImageGenData := q,
                            globalError := Some IMAGE_GENERATION_LOGIN_REQUIRED_BN \<rparr>))"
proof (intro conjI impI allI)
  assume h: "globalError st' = Some IMAGE_LIMIT_REACHED_BN
          \<or> globalError st' = Some IMAGE_GENERATION_LOGIN_REQUIRED_BN"
  have g: "trim (inputValue st) = [] \<or> isLoadingBotResponse st \<or> isProcessingImageGen st
           \<or> \<not> truthy (apiKey cfg) \<or> currentUser st = None
           \<or> DAILY_IMAGE_GENERATION_LIMIT cfg \<le> currentCount cfg (ig_now env) (userImageGenData st)"
    using h unfolding st'_def handleGenerateImage_error by (auto split: if_splits)
  from handleGenerateImage_rejected[OF g]
  show eq: "st' = st\<lparr> globalError := globalError st' \<rparr>"
    unfolding st'_def .
  show "remoteCalls st' = remoteCalls st" by (subst eq) simp
  show "chatSessions st' = chatSessions st" by (subst eq) simp
  show "userImageGenData st' = userImageGenData st" by (subst eq) simp
  show "userDocs st' = userDocs st" by (subst eq) simp
next
  fix q lim
  assume "currentUser st = None \<and> trim (inputValue st) \<noteq> [] \<and> \<not> isLoadingBotResponse st
          \<and> \<not> isProcessingImageGen st \<and> truthy (apiKey cfg)"
  then show "handleGenerateImage (cfg\<lparr> DAILY_IMAGE_GENERATION_LIMIT := lim \<rparr>) env
                         (st\<lparr> userImageGenData := q \<rparr>)
                      = st\<lparr> userImageGenData := q,
                            globalError := Some IMAGE_GENERATION_LOGIN_REQUIRED_BN \<rparr>"
    by (simp add: handleGenerateImage_def Let_def)
qed

lemma trim_cat: "trim ''cat'' = ''cat''"
  by (simp add: trim_def isWhiteSpace_def)

lemma handleGenerateImage_success:
  assumes "trim (inputValue st) \<noteq> []" and "\<not> isLoadingBotResponse st"
      and "\<not> isProcessingImageGen st" and "truthy (apiKey cfg)" and "currentUser st = Some uid"
      and "currentCount cfg (ig_now env) (userImageGenData st) < DAILY_IMAGE_GENERATION_LIMIT cfg"
      and "ig_result env = Inr img" and "ig_setDocOk env"
      and "newCountToday cfg (ig_doneAt env) (userImageGenData st) = Some n"
  shows "userImageGenData (handleGenerateImage cfg env st) =
           Some \<lparr> count = n, lastGeneratedAt = Some (ig_cachedAt env) \<rparr>"
    and "userDocs (handleGenerateImage cfg env st) =
           (userDocs st)(uid \<mapsto> \<lparr> count = n, lastGeneratedAt = Some (ig_serverTimestamp env) \<rparr>)"
    and "globalError (handleGenerateImage cfg env st) = None"
    and "isProcessingImageGen (handleGenerateImage cfg env st) = False"
    and "isLoadingBotResponse (handleGenerateImage cfg env st) = False"
    and "currentUser (handleGenerateImage cfg env st) = Some uid"
  using assms by (simp_all add: handleGenerateImage_def Let_def)

lemma newCountToday_currentCount:
  "\<forall>r. d = Some r \<longrightarrow> lastGeneratedAt r \<noteq> None \<Longrightarrow>
   newCountToday cfg now d = Some (currentCount cfg now d + 1)"
  by (auto simp: newCountToday_def currentCount_def split: option.splits)

lemma cfg0_limit: "DAILY_IMAGE_GENERATION_LIMIT cfg0 = 3"
  by (simp add: cfg0_def)

lemma generate_ok:
  assumes "\<not> isLoadingBotResponse st" and "\<not> isProcessingImageGen st"
      and "currentUser st = Some ''u1''"
      and "userImageGenData st = Some \<lparr> count = c, lastGeneratedAt = Some l \<rparr>"
      and "currentCount cfg0 t (userImageGenData st) < 3"
  shows "userImageGenData (generate t st) =
           Some \<lparr> count = currentCount cfg0 (t + 1) (userImageGenData st) + 1,
                  lastGeneratedAt = Some (t + 3) \<rparr>"
    and "userDocs (generate t st) ''u1'' =
           Some \<lparr> count = currentCount cfg0 (t + 1) (userImageGenData st) + 1,
                  lastGeneratedAt = Some (t + 2) \<rparr>"
    and "globalError (generate t st) = None"
    and "\<not> isProcessingImageGen (generate t st)"
    and "\<not> isLoadingBotResponse (generate t st)"
    and "currentUser (generate t st) = Some ''u1''"
proof -
  let ?st = "setInputValue ''cat'' st"
  have g: "trim (inputValue ?st) \<noteq> []" "\<not> isLoadingBotResponse ?st"
    "\<not> isProcessingImageGen ?st" "truthy (apiKey cfg0)" "currentUser ?st = Some ''u1''"
    using assms(1-3) by (simp_all add: setInputValue_def trim_cat cfg0_key)
  have b: "currentCount cfg0 (ig_now (genEnv t)) (userImageGenData ?st)
             < DAILY_IMAGE_GENERATION_LIMIT cfg0"
    using assms(5) by (simp add: setInputValue_def genEnv_def cfg0_limit)
  have r: "ig_result (genEnv t) = Inr ''img''" "ig_setDocOk (genEnv t)"
    by (simp_all add: genEnv_def)
  have n: "newCountToday cfg0 (ig_doneAt (genEnv t)) (userImageGenData ?st) =
             Some (currentCount cfg0 (t + 1) (userImageGenData st) + 1)"
    using assms(4) by (simp add: newCountToday_currentCount setInputValue_def genEnv_def)
  note s = handleGenerateImage_success[OF g b r n]
  show "userImageGenData (generate t st) =
           Some \<lparr> count = currentCount cfg0 (t + 1) (userImageGenData st) + 1,
                  lastGeneratedAt = Some (t + 3) \<rparr>"
    using s(1) by (simp add: generate_def genEnv_def)
  show "userDocs (generate t st) ''u1'' =
           Some \<lparr> count = currentCount cfg0 (t + 1) (userImageGenData st) + 1,
                  lastGeneratedAt = Some (t + 2) \<rparr>"
    using s(2) by (simp add: generate_def genEnv_def)
  show "globalError (generate t st) = None" using s(3) by (simp add: generate_def)
  show "\<not> isProcessingImageGen (generate t st)" using s(4) by (simp add: generate_def)
  show "\<not> isLoadingBotResponse (generate t st)" using s(5) by (simp add: generate_def)
  show "currentUser (generate t st) = Some ''u1''" using s(6) by (simp add: generate_def)
qed

lemma user0_ready:
  "\<not> isLoadingBotResponse user0" "\<not> isProcessingImageGen user0"
  "currentUser user0 = Some ''u1''"
  "userImageGenData user0 = Some \<lparr> count = 0, lastGeneratedAt = Some 0 \<rparr>"
  by (simp_all add: user0_def fetchData_def onAuthStateChanged_def loaded0_def
        initializeChatLogic_def initializeTry_def loadedSessions_def Let_def state0_def cfg0_key)

lemma q1_facts:
  "userImageGenData q1 = Some \<lparr> count = 1, lastGeneratedAt = Some 64801003 \<rparr>"
  "\<not> isProcessingImageGen q1" "\<not> isLoadingBotResponse q1" "currentUser q1 = Some ''u1''"
  unfolding q1_def
  using generate_ok[OF user0_ready, of 64801000]
  by (simp_all add: user0_ready currentCount_def startOfLocalDay_def cfg0_def)

lemma q2_facts:
  "userImageGenData q2 = Some \<lparr> count = 2, lastGeneratedAt = Some 64802003 \<rparr>"
  "\<not> isProcessingImageGen q2" "\<not> isLoadingBotResponse q2" "currentUser q2 = Some ''u1''"
  unfolding q2_def
  using generate_ok[OF q1_facts(3,2,4,1), of 64802000]
  by (simp_all add: q1_facts currentCount_def startOfLocalDay_def cfg0_def)

lemma q3_facts:
  "userImageGenData q3 = Some \<lparr> count = 3, lastGeneratedAt = Some 64803003 \<rparr>"
  "\<not> isProcessingImageGen q3" "\<not> isLoadingBotResponse q3" "currentUser q3 = Some ''u1''"
  "globalError q3 = None"
  "userDocs q3 ''u1'' = Some \<lparr> count = 3, lastGeneratedAt = Some 64803002 \<rparr>"
  unfolding q3_def
  using generate_ok[OF q2_facts(3,2,4,1), of 64803000]
  by (simp_all add: q2_facts currentCount_def startOfLocalDay_def cfg0_def)

lemma q4_rejected: "q4 = (setInputValue ''cat'' q3)\<lparr> globalError := Some IMAGE_LIMIT_REACHED_BN \<rparr>"
  unfolding q4_def generate_def
  by (simp add: handleGenerateImage_def Let_def setInputValue_def trim_cat cfg0_key q3_facts
        genEnv_def currentCount_def startOfLocalDay_def cfg0_limit)
     (simp add: cfg0_def)

lemma q4_facts:
  "userImageGenData q4 = Some \<lparr> count = 3, lastGeneratedAt = Some 64803003 \<rparr>"
  "\<not> isProcessingImageGen q4" "\<not> isLoadingBotResponse q4" "currentUser q4 = Some ''u1''"
  "globalError q4 = Some IMAGE_LIMIT_REACHED_BN"
  by (simp_all add: q4_rejected setInputValue_def q3_facts)

lemma q5_facts:
  "userImageGenData q5 = Some \<lparr> count = 1, lastGeneratedAt = Some 151201003 \<rparr>"
  "globalError q5 = None"
  unfolding q5_def
  using generate_ok[OF q4_facts(3,2,4,1), of 151201000]
  by (simp_all add: q4_facts currentCount_def startOfLocalDay_def cfg0_def)

theorem image_rejection_witness:
  "currentUser (setInputValue ''cat'' loaded0) = None
   \<and> generate 64801000 loaded0 =
       (setInputValue ''cat'' loaded0)\<lparr> globalError := Some IMAGE_GENERATION_LOGIN_REQUIRED_BN \<rparr>
   \<and> globalError q4 = Some IMAGE_LIMIT_REACHED_BN
   \<and> remoteCalls q4 = remoteCalls q3 \<and> chatSessions q4 = chatSessions q3
   \<and> userImageGenData q4 = userImageGenData q3 \<and> userDocs q4 = userDocs q3"
proof -
  let ?st = "setInputValue ''cat'' loaded0"
  have g: "currentUser ?st = None \<and> trim (inputValue ?st) \<noteq> [] \<and> \<not> isLoadingBotResponse ?st
          \<and> \<not> isProcessingImageGen ?st \<and> truthy (apiKey cfg0)"
    by (simp add: setInputValue_def trim_cat cfg0_key loaded0_def initializeChatLogic_def
          initializeTry_def loadedSessions_def Let_def state0_def)
  have c: "cfg0\<lparr> DAILY_IMAGE_GENERATION_LIMIT := 3 \<rparr> = cfg0"
    by (simp add: cfg0_def)
  from image_rejection[of cfg0 "genEnv 64801000" ?st] g
  have "handleGenerateImage (cfg0\<lparr> DAILY_IMAGE_GENERATION_LIMIT := 3 \<rparr>) (genEnv 64801000)
          (?st\<lparr> userImageGenData := userImageGenData ?st \<rparr>)
        = ?st\<lparr> userImageGenData := userImageGenData ?st,
               globalError := Some IMAGE_GENERATION_LOGIN_REQUIRED_BN \<rparr>"
    by blast
  then have a: "generate 64801000 loaded0 =
       ?st\<lparr> globalError := Some IMAGE_GENERATION_LOGIN_REQUIRED_BN \<rparr>"
    by (simp add: c generate_def)
  from image_rejection[of cfg0 "genEnv 64804000" "setInputValue ''cat'' q3"] q4_facts(5)
  have "remoteCalls q4 = remoteCalls q3 \<and> chatSessions q4 = chatSessions q3
        \<and> userImageGenData q4 = userImageGenData q3 \<and> userDocs q4 = userDocs q3"
    by (simp add: q4_def generate_def setInputValue_def)
  with a g q4_facts(5) show ?thesis by blast
qed

lemma mult_le_iff_le_div:
  fixes k b D :: int
  assumes "0 < D"
  shows "k * D \<le> b \<longleftrightarrow> k \<le> b div D"
proof
  assume "k * D \<le> b"
  then have "(k * D) div D \<le> b div D" using assms by (rule zdiv_mono1)
  then show "k \<le> b div D" using assms by simp
next
  assume "k \<le> b div D"
  then have "k * D \<le> (b div D) * D" using assms by (simp add: mult_right_mono)
  also have "\<dots> = b - b mod D" by (simp add: minus_mod_eq_div_mult)
  also have "\<dots> \<le> b" using assms by simp
  finally show "k * D \<le> b" .
qed

lemma startOfLocalDay_le_iff:
  "startOfLocalDay cfg now \<le> t \<longleftrightarrow> localDay cfg now \<le> localDay cfg t"
proof -
  let ?off = "timezoneOffset cfg"
  have "now - (now + ?off) mod 86400000 = ((now + ?off) div 86400000) * 86400000 - ?off"
    by (simp add: minus_mod_eq_div_mult [symmetric])
  then have "(now - (now + ?off) mod 86400000 \<le> t)
               \<longleftrightarrow> ((now + ?off) div 86400000) * 86400000 \<le> t + ?off"
    by linarith
  also have "\<dots> \<longleftrightarrow> (now + ?off) div 86400000 \<le> (t + ?off) div 86400000"
    by (rule mult_le_iff_le_div) simp
  finally show ?thesis
    by (simp add: startOfLocalDay_def localDay_def)
qed

lemma localDay_mono: "t \<le> now \<Longrightarrow> localDay cfg t \<le> localDay cfg now"
  unfolding localDay_def by (rule zdiv_mono1) simp_all

lemma currentCount_days:
  "currentCount cfg now (Some \<lparr> count = c, lastGeneratedAt = Some t \<rparr>) =
     (if localDay cfg now \<le> localDay cfg t then c else 0)"
  by (simp add: currentCount_def startOfLocalDay_le_iff)

lemma currentCount_same_day:
  "localDay cfg t1 = localDay cfg t2 \<Longrightarrow> currentCount cfg t1 d = currentCount cfg t2 d"
  by (simp add: currentCount_def startOfLocalDay_le_iff split: option.splits)

text \<open>
  A cached record dated on the next local day (a server clock ahead of the client's) still
  counts in full today.
\<close>

theorem quota_future_counterexample:
  "localDay cfg0 64801000 = 1 \<and> localDay cfg0 151201000 = 2
   \<and> currentCount cfg0 64801000 (Some \<lparr> count = 2, lastGeneratedAt = Some 151201000 \<rparr>) = 2"
  by (simp add: localDay_def currentCount_def startOfLocalDay_def cfg0_def)

text \<open>
  C4 (as the code has it). The effective count is the record's count when its timestamp
  falls on the local calendar day of \<open>now\<close> or on a later one, and 0 otherwise (also
  without a record or without a timestamp); for a timestamp not after \<open>now\<close> that is:
  on the same local day. A request that passes the guards before the quota is rejected
  with the limit message exactly when the effective count at the time of the request has
  reached the limit, and then nothing but the error surface changes. Otherwise, when the
  image arrives and the write succeeds, the cached record and the user's document get the
  effective count at the time of arrival plus one (the same count as at the request when
  that is still the same local day), the cache with the client's timestamp and the
  document with the server's.
\<close>

theorem quota_rule:
  fixes cfg env st
  defines "st' \<equiv> handleGenerateImage cfg env st"
      and "limit \<equiv> DAILY_IMAGE_GENERATION_LIMIT cfg"
      and "cached \<equiv> userImageGenData st"
  assumes ready: "trim (inputValue st) \<noteq> []" "\<not> isLoadingBotResponse st"
                 "\<not> isProcessingImageGen st" "truthy (apiKey cfg)" "currentUser st = Some uid"
  shows "currentCount cfg now None = 0
       \<and> (\<forall>c. currentCount cfg now (Some \<lparr> count = c, lastGeneratedAt = None \<rparr>) = 0)
       \<and> (\<forall>c t. currentCount cfg now (Some \<lparr> count = c, lastGeneratedAt = Some t \<rparr>) =
                   (if localDay cfg now \<le> localDay cfg t then c else 0))
       \<and> (\<forall>c t. t \<le> now \<longrightarrow>
                 currentCount cfg now (Some \<lparr> count = c, lastGeneratedAt = Some t \<rparr>) =
                   (if localDay cfg t = localDay cfg now then c else 0))
       \<and> (globalError st' = Some IMAGE_LIMIT_REACHED_BN
            \<longleftrightarrow> limit \<le> currentCount cfg (ig_now env) cached)
       \<and> (limit \<le> currentCount cfg (ig_now env) cached \<longrightarrow>
            st' = st\<lparr> globalError := Some IMAGE_LIMIT_REACHED_BN \<rparr>)
       \<and> (currentCount cfg (ig_now env) cached < limit
            \<and> (\<exists>img. ig_result env = Inr img) \<and> ig_setDocOk env
            \<and> (\<forall>r. cached = Some r \<longrightarrow> lastGeneratedAt r \<noteq> None) \<longrightarrow>
            globalError st' = None
          \<and> userImageGenData st' =
               Some \<lparr> count = currentCount cfg (ig_doneAt env) cached + 1,
                      lastGeneratedAt = Some (ig_cachedAt env) \<rparr>
          \<and> userDocs st' uid =
               Some \<lparr> count = currentCount cfg (ig_doneAt env) cached + 1,
                      lastGeneratedAt = Some (ig_serverTimestamp env) \<rparr>
          \<and> (localDay cfg (ig_doneAt env) = localDay cfg (ig_now env) \<longrightarrow>
                currentCount cfg (ig_doneAt env) cached = currentCount cfg (ig_now env) cached))"
proof (intro conjI allI impI)
  show "currentCount cfg now None = 0" by (simp add: currentCount_def)
next
  fix c show "currentCount cfg now (Some \<lparr> count = c, lastGeneratedAt = None \<rparr>) = 0"
    by (simp add: currentCount_def)
next
  fix c t
  show "currentCount cfg now (Some \<lparr> count = c, lastGeneratedAt = Some t \<rparr>) =
          (if localDay cfg now \<le> localDay cfg t then c else 0)"
    by (rule currentCount_days)
next
  fix c t assume "t \<le> now"
  then have "localDay cfg t \<le> localDay cfg now" by (rule localDay_mono)
  then show "currentCount cfg now (Some \<lparr> count = c, lastGeneratedAt = Some t \<rparr>) =
          (if localDay cfg t = localDay cfg now then c else 0)"
    by (auto simp: currentCount_days)
next
  show "globalError st' = Some IMAGE_LIMIT_REACHED_BN
            \<longleftrightarrow> limit \<le> currentCount cfg (ig_now env) cached"
    unfolding st'_def limit_def cached_def handleGenerateImage_error
    using ready by simp
next
  assume "limit \<le> currentCount cfg (ig_now env) cached"
  then show "st' = st\<lparr> globalError := Some IMAGE_LIMIT_REACHED_BN \<rparr>"
    unfolding st'_def limit_def cached_def
    using ready by (simp add: handleGenerateImage_def Let_def)
next
  assume h: "currentCount cfg (ig_now env) cached < limit
            \<and> (\<exists>img. ig_result env = Inr img) \<and> ig_setDocOk env
            \<and> (\<forall>r. cached = Some r \<longrightarrow> lastGeneratedAt r \<noteq> None)"
  then obtain img where img: "ig_result env = Inr img" by blast
  from h have n: "newCountToday cfg (ig_doneAt env) (userImageGenData st) =
                    Some (currentCount cfg (ig_doneAt env) cached + 1)"
    unfolding cached_def by (simp add: newCountToday_currentCount)
  from h have b: "currentCount cfg (ig_now env) (userImageGenData st)
                    < DAILY_IMAGE_GENERATION_LIMIT cfg"
    unfolding cached_def limit_def by simp
  from h have ok: "ig_setDocOk env" by simp
  note s = handleGenerateImage_success[OF ready b img ok n]
  show "globalError st' = None" unfolding st'_def by (rule s(3))
  show "userImageGenData st' =
               Some \<lparr> count = currentCount cfg (ig_doneAt env) cached + 1,
                      lastGeneratedAt = Some (ig_cachedAt env) \<rparr>"
    unfolding st'_def by (rule s(1))
  show "userDocs st' uid =
               Some \<lparr> count = currentCount cfg (ig_doneAt env) cached + 1,
                      lastGeneratedAt = Some (ig_serverTimestamp env) \<rparr>"
    unfolding st'_def by (simp add: s(2))
  show "localDay cfg (ig_doneAt env) = localDay cfg (ig_now env) \<Longrightarrow>
          currentCount cfg (ig_doneAt env) cached = currentCount cfg (ig_now env) cached"
    by (rule currentCount_same_day)
qed

theorem quota_rule_witness:
  "userImageGenData user0 = Some \<lparr> count = 0, lastGeneratedAt = Some 0 \<rparr>
   \<and> userImageGenData q1 = Some \<lparr> count = 1, lastGeneratedAt = Some 64801003 \<rparr>
   \<and> userImageGenData q2 = Some \<lparr> count = 2, lastGeneratedAt = Some 64802003 \<rparr>
   \<and> userImageGenData q3 = Some \<lparr> count = 3, lastGeneratedAt = Some 64803003 \<rparr>
   \<and> globalError q4 = Some IMAGE_LIMIT_REACHED_BN
   \<and> userImageGenData q4 = userImageGenData q3
   \<and> localDay cfg0 64804000 = 1 \<and> localDay cfg0 151201000 = 2
   \<and> userImageGenData q5 = Some \<lparr> count = 1, lastGeneratedAt = Some 151201003 \<rparr>"
proof -
  let ?st = "setInputValue ''cat'' q3"
  have ready: "trim (inputValue ?st) \<noteq> []" "\<not> isLoadingBotResponse ?st"
    "\<not> isProcessingImageGen ?st" "truthy (apiKey cfg0)" "currentUser ?st = Some ''u1''"
    by (simp_all add: setInputValue_def trim_cat cfg0_key q3_facts)
  have full: "DAILY_IMAGE_GENERATION_LIMIT cfg0
                \<le> currentCount cfg0 (ig_now (genEnv 64804000)) (userImageGenData ?st)"
    by (simp add: setInputValue_def q3_facts genEnv_def currentCount_def startOfLocalDay_def
          cfg0_def)
  from quota_rule[where env = "genEnv 64804000" and now = 0, OF ready] full
  have "handleGenerateImage cfg0 (genEnv 64804000) ?st =
          ?st\<lparr> globalError := Some IMAGE_LIMIT_REACHED_BN \<rparr>"
    by blast
  then have "globalError q4 = Some IMAGE_LIMIT_REACHED_BN
             \<and> userImageGenData q4 = userImageGenData q3"
    by (simp add: q4_def generate_def setInputValue_def)
  moreover have "localDay cfg0 64804000 = 1 \<and> localDay cfg0 151201000 = 2"
    by (simp add: localDay_def cfg0_def)
  ultimately show ?thesis
    using user0_ready(4) q1_facts(1) q2_facts(1) q3_facts(1) q5_facts(1) by blast
qed

section \<open>The title of a session\<close>

lemma autoTitle_nonempty: "t \<noteq> [] \<Longrightarrow> autoTitle t \<noteq> []"
  by (cases t) (simp_all add: autoTitle_def substring0_def)

lemma titleToSet_keep:
  "ses_title cur \<noteq> DEFAULT_CHAT_TITLE_BN cfg \<Longrightarrow> titleToSet cfg None msgs cur = ses_title cur"
  by (simp add: titleToSet_def truthy_def)

lemma titleToSet_given:
  "t \<noteq> [] \<Longrightarrow> titleToSet cfg (Some t) msgs cur = t"
  by (simp add: titleToSet_def truthy_def orElse_def)

lemma keyedById_map_of:
  "keyedById reg \<Longrightarrow> map_of reg k = Some s \<Longrightarrow> ses_id s = k"
  by (auto simp: keyedById_def dest: map_of_SomeD)

lemma set_update_cases:
  "(k', v') \<in> set (AList.update k v al) \<Longrightarrow> (k', v') = (k, v) \<or> (k', v') \<in> set al"
  by (induction al) (auto split: if_splits)

lemma keyedById_update:
  "keyedById reg \<Longrightarrow> ses_id s = k \<Longrightarrow> keyedById (AList.update k s reg)"
  unfolding keyedById_def
  by (auto simp: distinct_update dest!: set_update_cases)

lemma ucsm_keyed:
  "keyedById reg \<Longrightarrow> keyedById (updateCurrentSessionMessages cfg acs now f t reg)"
  by (auto simp: updateCurrentSessionMessages_def Let_def keyedById_update keyedById_map_of
        split: option.splits)

lemma ucsm_titled:
  assumes "titled k T reg" and "T \<noteq> DEFAULT_CHAT_TITLE_BN cfg"
  shows "titled k T (updateCurrentSessionMessages cfg acs now f None reg)"
proof (cases acs)
  case None
  with assms show ?thesis by (simp add: ucsm_no_session)
next
  case (Some a)
  from assms(1) obtain s where s: "map_of reg k = Some s" "ses_title s = T"
    and keyed: "keyedById reg"
    by (auto simp: titled_def)
  have keyed': "keyedById (updateCurrentSessionMessages cfg acs now f None reg)"
    using keyed by (rule ucsm_keyed)
  show ?thesis
  proof (cases "ses_id a = k")
    case True
    with s have "map_of reg (ses_id a) = Some s" by simp
    from map_of_ucsm_same[OF this, of cfg now f None] s(2) assms(2) True Some keyed'
    show ?thesis
      by (simp add: titled_def titleToSet_keep)
  next
    case False
    with s Some keyed' show ?thesis
      by (simp add: titled_def map_of_ucsm_other)
  qed
qed

lemma ucsm_titled_other:
  assumes "titled k T reg" and "ses_id a \<noteq> k"
  shows "titled k T (updateCurrentSessionMessages cfg (Some a) now f t reg)"
  using assms by (auto simp: titled_def ucsm_keyed map_of_ucsm_other)

lemma activeChatSession_own_id:
  assumes "keyedById (chatSessions st)" and "activeChatSession st = Some a"
  shows "map_of (chatSessions st) (ses_id a) = Some a"
proof -
  from assms(2) obtain key where "map_of (chatSessions st) key = Some a"
    by (auto simp: activeChatSession_def split: option.splits if_splits)
  moreover from this assms(1) have "ses_id a = key" by (rule keyedById_map_of[rotated])
  ultimately show ?thesis by simp
qed

lemma onChunk_titled:
  "titled k T (chatSessions st) \<Longrightarrow> T \<noteq> DEFAULT_CHAT_TITLE_BN cfg \<Longrightarrow>
   titled k T (chatSessions (onChunk cfg cl t c st))"
  by (auto simp: onChunk_def chatSessionsUpdater_def updateAIMessageStream_def ucsm_titled
        split: option.splits)

lemma onChunks_titled:
  "titled k T (chatSessions st) \<Longrightarrow> T \<noteq> DEFAULT_CHAT_TITLE_BN cfg \<Longrightarrow>
   titled k T (chatSessions (onChunks cfg cl chunks st))"
  by (induction chunks arbitrary: st) (auto simp: onChunk_titled)

lemma onSettle_titled:
  "titled k T (chatSessions st) \<Longrightarrow> T \<noteq> DEFAULT_CHAT_TITLE_BN cfg \<Longrightarrow>
   titled k T (chatSessions (onSettle cfg cl t ending st))"
  by (auto simp: onSettle_def onStreamEnd_def onStreamError_def Let_def chatSessionsUpdater_def
        updateAIMessageStream_def ucsm_titled split: StreamEnd.splits option.splits)

lemma onStreamError_titled:
  "titled k T (chatSessions st) \<Longrightarrow> T \<noteq> DEFAULT_CHAT_TITLE_BN cfg \<Longrightarrow>
   titled k T (chatSessions (onStreamError cfg cl t e st))"
  by (simp add: onStreamError_def Let_def chatSessionsUpdater_def ucsm_titled)

lemma afterPrefix_titled:
  assumes "titled k T (chatSessions st1)" and "T \<noteq> DEFAULT_CHAT_TITLE_BN cfg"
  shows "titled k T (chatSessions
           (case sendRequest cl filePart st1 of
              Inl e \<Rightarrow> onStreamError cfg cl endAt e st1
            | Inr st2 \<Rightarrow> onSettle cfg cl endAt ending (onChunks cfg cl chunks st2)))"
proof (cases "sendRequest cl filePart st1")
  case (Inl e)
  with assms show ?thesis by (simp add: onStreamError_titled)
next
  case (Inr st2)
  then have "chatSessions st2 = chatSessions st1" by (rule sendRequest_sessions)
  with assms Inr show ?thesis by (simp add: onSettle_titled onChunks_titled)
qed

lemma sendPrefix_titled:
  assumes t: "titled k T (chatSessions st)" and nd: "T \<noteq> DEFAULT_CHAT_TITLE_BN cfg"
  shows "titled k T (chatSessions (fst (sendPrefix cfg now st)))"
proof (cases "activeChatSession st")
  case None
  with t show ?thesis
    by (simp add: sendPrefix_def Let_def chatSessionsUpdater_def addMessageToCurrentChat_def
          ucsm_no_session)
next
  case (Some a)
  from t have keyed: "keyedById (chatSessions st)" by (simp add: titled_def)
  have own: "map_of (chatSessions st) (ses_id a) = Some a"
    using keyed Some by (rule activeChatSession_own_id)
  show ?thesis
  proof (cases "ses_title a = DEFAULT_CHAT_TITLE_BN cfg")
    case True
    have "ses_id a \<noteq> k"
    proof
      assume "ses_id a = k"
      with own t have "ses_title a = T" by (auto simp: titled_def)
      with True nd show False by simp
    qed
    with t Some show ?thesis
      by (simp add: sendPrefix_def Let_def chatSessionsUpdater_def addMessageToCurrentChat_def
            ucsm_titled_other)
  next
    case False
    with t nd Some show ?thesis
      by (simp add: sendPrefix_def Let_def chatSessionsUpdater_def addMessageToCurrentChat_def
            ucsm_titled)
  qed
qed

lemma handleSendMessage_titled:
  assumes "titled k T (chatSessions st)" and "T \<noteq> DEFAULT_CHAT_TITLE_BN cfg"
  shows "titled k T (chatSessions (handleSendMessage cfg now filePart chunks endAt ending st))"
proof (cases "sendPrefix cfg now st")
  case (Pair st1 r)
  from sendPrefix_titled[OF assms, of now] Pair have t1: "titled k T (chatSessions st1)"
    by simp
  show ?thesis
  proof (cases r)
    case None
    with Pair t1 show ?thesis by (simp add: handleSendMessage_def)
  next
    case (Some cl)
    with Pair afterPrefix_titled[OF t1 assms(2), where cl = cl and filePart = filePart
        and endAt = endAt and ending = ending and chunks = chunks]
    show ?thesis by (simp add: handleSendMessage_def)
  qed
qed

lemma sendPrefix_first_title:
  assumes keyed: "keyedById (chatSessions st)" and act: "activeChatSession st = Some a"
      and dflt: "ses_title a = DEFAULT_CHAT_TITLE_BN cfg"
      and pre: "sendPrefix cfg now st = (st1, Some cl)"
      and nd: "autoTitle (cl_userMessageText cl) \<noteq> DEFAULT_CHAT_TITLE_BN cfg"
  shows "titled (ses_id a) (autoTitle (cl_userMessageText cl)) (chatSessions st1)"
proof -
  let ?T = "autoTitle (cl_userMessageText cl)"
  have own: "map_of (chatSessions st) (ses_id a) = Some a"
    using keyed act by (rule activeChatSession_own_id)
  have ne: "?T \<noteq> []"
    using sendPrefix_closure(3)[OF pre] by (rule autoTitle_nonempty)
  obtain um where st1: "chatSessions st1 =
      updateCurrentSessionMessages cfg (Some a) now
        (\<lambda>prev. prev @ [placeholderMessage now (currentModel (Some a))]) None
        (updateCurrentSessionMessages cfg (Some a) now (\<lambda>prev. prev @ [um]) (Some ?T)
           (chatSessions st))"
    using pre act dflt
    by (auto simp: sendPrefix_def Let_def chatSessionsUpdater_def addMessageToCurrentChat_def
          split: if_splits)
  have "titled (ses_id a) ?T
          (updateCurrentSessionMessages cfg (Some a) now (\<lambda>prev. prev @ [um]) (Some ?T)
             (chatSessions st))"
    using own keyed ne
    by (simp add: titled_def ucsm_keyed map_of_ucsm_same titleToSet_given)
  then show ?thesis
    unfolding st1 using nd by (rule ucsm_titled)
qed

text \<open>
  The first message is the default title's own text, so the derived title is the default
  title again, and the second message replaces it.
\<close>

theorem title_overwritten_counterexample:
  "titleAt loaded0 ''5'' = Some ''New Chat'' \<and> DEFAULT_CHAT_TITLE_BN cfg0 = ''New Chat''
   \<and> autoTitle ''New Chat'' = ''New Chat''
   \<and> titleAt sentDefault0 ''5'' = Some ''New Chat''
   \<and> titleAt sentAgain0 ''5'' = Some ''hello''"
  by code_simp

text \<open>
  What loading does for a stored session without a title: the first 30 characters of the
  first user message, and no ellipsis.
\<close>

lemma backfill_title_thirty:
  assumes "ses_title s = []"
      and "find_first (\<lambda>m. msg_sender m = User) (ses_messages s) = Some u"
      and "msg_text u \<noteq> []"
  shows "ses_title (backfillTitle cfg s) = take 30 (msg_text u)"
  using assms by (cases "msg_text u") (simp_all add: backfillTitle_def orElse_def substring0_def)

lemma backfill_title_example:
  "ses_title (backfillTitle cfg0 untitled0) = ''Tell me about black holes and ''
   \<and> autoTitle blackHoles = ''Tell me about black holes and their...''"
  by code_simp

text \<open>
  C3 (as the code has it, for the send path). The first send into a session whose title is
  the default appends the user's message and sets the title to the first 35 characters of
  its text, followed by the ellipsis marker exactly when the text is longer than 35
  characters. When that title differs from the default title, it is still the session's
  title when the exchange has run to its end, however it ends, and after a second send
  with any text and any outcome.
\<close>

theorem title_derivation:
  fixes cfg now filePart chunks endAt ending st nowB filePartB chunksB endAtB endingB v cl
    and stF stS :: AppState and t T :: string
  defines "stF \<equiv> handleSendMessage cfg now filePart chunks endAt ending st"
      and "stS \<equiv> handleSendMessage cfg nowB filePartB chunksB endAtB endingB (setInputValue v stF)"
      and "t \<equiv> cl_userMessageText cl"
      and "T \<equiv> take 35 (cl_userMessageText cl)
                 @ (if 35 < length (cl_userMessageText cl) then ''...'' else [])"
  assumes keyed: "keyedById (chatSessions st)" and act: "activeChatSession st = Some a"
      and dflt: "ses_title a = DEFAULT_CHAT_TITLE_BN cfg"
      and pre: "sendPrefix cfg now st = (st1, Some cl)"
      and nd: "T \<noteq> DEFAULT_CHAT_TITLE_BN cfg"
  shows "(\<exists>s1 um. map_of (chatSessions st1) (ses_id a) = Some s1
            \<and> ses_messages s1 = ses_messages a @ [um, placeholderMessage now (ses_model a)]
            \<and> msg_sender um = User \<and> msg_text um = t \<and> ses_title s1 = T)
       \<and> titleAt stF (ses_id a) = Some T
       \<and> titleAt stS (ses_id a) = Some T"
proof -
  have TT: "T = autoTitle (cl_userMessageText cl)"
    by (simp add: T_def autoTitle_def substring0_def)
  have own: "map_of (chatSessions st) (ses_id a) = Some a"
    using keyed act by (rule activeChatSession_own_id)
  have t1: "titled (ses_id a) T (chatSessions st1)"
    unfolding TT using keyed act dflt pre nd[unfolded TT] by (rule sendPrefix_first_title)
  from sendPrefix_messages[OF pre act own] t1
  have first: "\<exists>s1 um. map_of (chatSessions st1) (ses_id a) = Some s1
            \<and> ses_messages s1 = ses_messages a @ [um, placeholderMessage now (ses_model a)]
            \<and> msg_sender um = User \<and> msg_text um = t \<and> ses_title s1 = T"
    by (auto simp: titled_def t_def)
  have "stF = (case sendRequest cl filePart st1 of
                 Inl e \<Rightarrow> onStreamError cfg cl endAt e st1
               | Inr st2 \<Rightarrow> onSettle cfg cl endAt ending (onChunks cfg cl chunks st2))"
    using pre by (simp add: stF_def handleSendMessage_def)
  with afterPrefix_titled[OF t1 nd, where cl = cl and filePart = filePart
        and endAt = endAt and ending = ending and chunks = chunks]
  have tF: "titled (ses_id a) T (chatSessions stF)" by simp
  then have "titled (ses_id a) T (chatSessions (setInputValue v stF))"
    by (simp add: setInputValue_def)
  from handleSendMessage_titled[OF this nd]
  have tS: "titled (ses_id a) T (chatSessions stS)"
    by (simp add: stS_def)
  from first tF tS show ?thesis
    by (auto simp: titled_def titleAt_def)
qed

theorem title_derivation_witness:
  "length blackHoles = 60
   \<and> titleAt (handleSendMessage cfg0 10 (Inl None) [(11, Some ''ok'')] 12 Completed
        (setInputValue ''And white holes?''
           (handleSendMessage cfg0 7 (Inl None) [(8, Some ''ok'')] 9 Completed
              (setInputValue blackHoles loaded0)))) ''5''
       = Some ''Tell me about black holes and their...''"
proof -
  let ?st = "setInputValue blackHoles loaded0"
  have keyed: "keyedById (chatSessions ?st)"
    by (simp add: setInputValue_def loaded0_sessions keyedById_def session0_id)
  have act: "activeChatSession ?st = Some session0"
    by (simp add: activeChatSession_def setInputValue_def loaded0_sessions loaded0_active)
  have dflt: "ses_title session0 = DEFAULT_CHAT_TITLE_BN cfg0"
    by (simp add: session0_def freshSession_def createNew_default)
  have utext: "map_option cl_userMessageText (snd (sendPrefix cfg0 7 ?st)) = Some blackHoles"
    by code_simp
  then obtain st1 cl where pre: "sendPrefix cfg0 7 ?st = (st1, Some cl)"
    and cl: "cl_userMessageText cl = blackHoles"
    by (cases "sendPrefix cfg0 7 ?st") auto
  have T: "take 35 blackHoles @ (if 35 < length blackHoles then ''...'' else [])
             = ''Tell me about black holes and their...''"
    by (simp add: blackHoles_def)
  have nd: "take 35 (cl_userMessageText cl)
              @ (if 35 < length (cl_userMessageText cl) then ''...'' else [])
            \<noteq> DEFAULT_CHAT_TITLE_BN cfg0"
    unfolding cl T by (simp add: cfg0_def)
  have len: "length blackHoles = 60"
    by (simp add: blackHoles_def)
  from title_derivation[OF keyed act dflt pre nd, where filePart = "Inl None"
         and chunks = "[(8, Some ''ok'')]" and endAt = 9 and ending = Completed
         and nowB = 10 and filePartB = "Inl None" and chunksB = "[(11, Some ''ok'')]"
         and endAtB = 12 and endingB = Completed and v = "''And white holes?''"]
  show ?thesis
    unfolding cl T by (simp add: session0_id len)
qed

section \<open>Invariants of the registry\<close>

lemma digits_no_underscore: "CHR ''_'' \<notin> set (digits n)"
proof (induction n rule: digits.induct)
  case (1 n)
  have d: "\<And>k. k < 10 \<Longrightarrow> digitChar k \<noteq> CHR ''_''"
  proof -
    fix k :: nat assume "k < 10"
    then have "k \<in> {0,1,2,3,4,5,6,7,8,9}" by auto
    then show "digitChar k \<noteq> CHR ''_''" by (auto simp: digitChar_def)
  qed
  show ?case
  proof (cases "n < 10")
    case True
    then show ?thesis using d[of n] by (subst digits.simps) simp
  next
    case False
    have "n mod 10 < 10" by simp
    with 1 False d[of "n mod 10"] show ?thesis by (subst digits.simps) simp
  qed
qed

lemma toString_no_underscore: "CHR ''_'' \<notin> set (toString i)"
  by (simp add: toString_def digits_no_underscore)

lemma includes_skip:
  "CHR ''_'' \<notin> set ds \<Longrightarrow>
   includes_str (ds @ suf) ''_ai_welcome'' = includes_str suf ''_ai_welcome''"
  by (induction ds) (auto simp: includes_str_def sublist_Cons_right)

lemma plain_suffixes:
  "\<not> includes_str ''_user'' ''_ai_welcome''"
  "\<not> includes_str ''_ai'' ''_ai_welcome''"
  "\<not> includes_str ''_user_img_prompt'' ''_ai_welcome''"
  "\<not> includes_str ''_ai_img_gen'' ''_ai_welcome''"
  by code_simp+

lemma generated_ids:
  "\<not> includes_str (toString n @ ''_user'') ''_ai_welcome''"
  "\<not> includes_str (toString n @ ''_ai'') ''_ai_welcome''"
  "\<not> includes_str (toString n @ ''_user_img_prompt'') ''_ai_welcome''"
  "\<not> includes_str (toString n @ ''_ai_img_gen'') ''_ai_welcome''"
  by (simp_all add: includes_skip[OF toString_no_underscore] plain_suffixes)

lemma keepsMarker_append:
  "\<not> includes_str (msg_id m) ''_ai_welcome'' \<Longrightarrow> keepsMarker (\<lambda>prev. prev @ [m])"
  by (auto simp: keepsMarker_def markerReserved_def)

lemma keepsMarker_map:
  "(\<And>m. msg_id (g m) = msg_id m \<and> msg_sender (g m) = msg_sender m) \<Longrightarrow> keepsMarker (map g)"
  by (auto simp: keepsMarker_def markerReserved_def)

lemma keepsMarker_replace:
  "\<not> includes_str (msg_id r) ''_ai_welcome'' \<Longrightarrow>
   keepsMarker (map (\<lambda>msg. if msg_id msg = P then r else msg))"
  by (auto simp: keepsMarker_def markerReserved_def)

lemma keepsMarker_stream:
  "\<not> includes_str P ''_ai_welcome'' \<Longrightarrow> keepsMarker (streamTransform cm now P c fin)"
  by (auto simp: keepsMarker_def markerReserved_def streamTransform_def Let_def)

lemma ucsm_reserved:
  assumes "registryReserved reg" and "keepsMarker f"
  shows "registryReserved (updateCurrentSessionMessages cfg acs now f t reg)"
proof (cases acs)
  case None
  with assms show ?thesis by (simp add: ucsm_no_session)
next
  case (Some a)
  show ?thesis
  proof (cases "map_of reg (ses_id a)")
    case None
    with Some assms show ?thesis by (simp add: ucsm_absent)
  next
    case (Some cur)
    with assms(1) have "markerReserved (ses_messages cur)" by (rule registryReserved_lookup)
    with assms(2) have "markerReserved (f (ses_messages cur))" by (simp add: keepsMarker_def)
    with assms(1) Some \<open>acs = Some a\<close> show ?thesis
      by (simp add: updateCurrentSessionMessages_def Let_def registryReserved_update)
  qed
qed

text \<open>The registry part of a state, and what the handlers do to predicates on it.\<close>

lemma sendPrefix_preserves:
  assumes step: "\<And>acs t f ttl reg. P reg \<Longrightarrow> keepsMarker f \<Longrightarrow>
                   P (updateCurrentSessionMessages cfg acs t f ttl reg)"
      and "P (chatSessions st)"
  shows "P (chatSessions (fst (sendPrefix cfg now st)))"
  using assms(2)
  by (simp add: sendPrefix_def Let_def chatSessionsUpdater_def addMessageToCurrentChat_def
        step keepsMarker_append generated_ids placeholderMessage_def)

lemma handleSendMessage_preserves:
  assumes step: "\<And>acs t f ttl reg. P reg \<Longrightarrow> keepsMarker f \<Longrightarrow>
                   P (updateCurrentSessionMessages cfg acs t f ttl reg)"
      and P: "P (chatSessions st)"
  shows "P (chatSessions (handleSendMessage cfg now filePart chunks endAt ending st))"
proof (cases "sendPrefix cfg now st")
  case (Pair st1 r)
  from sendPrefix_preserves[of P cfg st now, OF step P] Pair have P1: "P (chatSessions st1)"
    by simp
  show ?thesis
  proof (cases r)
    case None
    with Pair P1 show ?thesis by (simp add: handleSendMessage_def)
  next
    case (Some cl)
    have idc: "\<not> includes_str (cl_aiMessageId cl) ''_ai_welcome''"
      using sendPrefix_closure(2)[of cfg now st st1 cl] Pair Some by (simp add: generated_ids)
    have chunk: "\<And>s t c. P (chatSessions s) \<Longrightarrow> P (chatSessions (onChunk cfg cl t c s))"
      by (auto simp: onChunk_def chatSessionsUpdater_def updateAIMessageStream_def step
            keepsMarker_stream idc split: option.splits)
    have chunks: "\<And>s. P (chatSessions s) \<Longrightarrow> P (chatSessions (onChunks cfg cl chunks s))"
    proof -
      fix s show "P (chatSessions s) \<Longrightarrow> P (chatSessions (onChunks cfg cl chunks s))"
        by (induction chunks arbitrary: s) (auto simp: chunk)
    qed
    have err: "\<And>s e. P (chatSessions s) \<Longrightarrow> P (chatSessions (onStreamError cfg cl endAt e s))"
      by (simp add: onStreamError_def Let_def chatSessionsUpdater_def step keepsMarker_map)
    have ended: "\<And>s. P (chatSessions s) \<Longrightarrow> P (chatSessions (onStreamEnd cfg cl endAt s))"
      by (auto simp: onStreamEnd_def chatSessionsUpdater_def updateAIMessageStream_def step
            keepsMarker_stream idc split: option.splits)
    show ?thesis
    proof (cases "sendRequest cl filePart st1")
      case (Inl e)
      with Pair Some P1 show ?thesis by (simp add: handleSendMessage_def err)
    next
      case (Inr st2)
      then have "chatSessions st2 = chatSessions st1" by (rule sendRequest_sessions)
      with P1 have "P (chatSessions (onChunks cfg cl chunks st2))" by (simp add: chunks)
      with Pair Some Inr show ?thesis
        by (cases ending) (simp_all add: handleSendMessage_def onSettle_def err ended)
    qed
  qed
qed

lemma handleGenerateImage_preserves:
  assumes step: "\<And>acs t f ttl reg. P reg \<Longrightarrow> keepsMarker f \<Longrightarrow>
                   P (updateCurrentSessionMessages cfg acs t f ttl reg)"
      and P: "P (chatSessions st)"
  shows "P (chatSessions (handleGenerateImage cfg env st))"
  using P
  by (auto simp: handleGenerateImage_def Let_def chatSessionsUpdater_def imageGenFailed_def
        addMessageToCurrentChat_def step keepsMarker_append keepsMarker_map keepsMarker_replace
        generated_ids split: option.splits sum.splits)

lemma onChunks_frame:
  "storedHistory (onChunks cfg cl chunks st) = storedHistory st
   \<and> chatSessionRef (onChunks cfg cl chunks st) = chatSessionRef st
   \<and> activeChatId (onChunks cfg cl chunks st) = activeChatId st"
  by (induction chunks arbitrary: st) (auto simp: onChunk_def chatSessionsUpdater_def)

lemma sendPrefix_frame:
  "storedHistory (fst (sendPrefix cfg now st)) = storedHistory st"
  "chatSessionRef (fst (sendPrefix cfg now st)) = chatSessionRef st"
  "activeChatId (fst (sendPrefix cfg now st)) = activeChatId st"
  by (simp_all add: sendPrefix_def Let_def chatSessionsUpdater_def)

lemma sendRequest_frame:
  assumes "sendRequest cl filePart st1 = Inr st2"
  shows "storedHistory st2 = storedHistory st1" and "chatSessionRef st2 = chatSessionRef st1"
    and "activeChatId st2 = activeChatId st1"
  using assms by (auto simp: sendRequest_def Let_def split: option.splits sum.splits)

lemma onStreamError_frame:
  "storedHistory (onStreamError cfg cl t e st) = storedHistory st"
  "chatSessionRef (onStreamError cfg cl t e st) = chatSessionRef st"
  "activeChatId (onStreamError cfg cl t e st) = activeChatId st"
  by (simp_all add: onStreamError_def Let_def chatSessionsUpdater_def)

lemma onSettle_frame:
  "storedHistory (onSettle cfg cl t ending st) = storedHistory st"
  "chatSessionRef (onSettle cfg cl t ending st) = chatSessionRef st"
  "activeChatId (onSettle cfg cl t ending st) = activeChatId st"
  by (cases ending; simp add: onSettle_def onStreamEnd_def onStreamError_frame
        chatSessionsUpdater_def)+

lemma handleSendMessage_frame:
  "storedHistory (handleSendMessage cfg now filePart chunks endAt ending st) = storedHistory st
   \<and> chatSessionRef (handleSendMessage cfg now filePart chunks endAt ending st) = chatSessionRef st
   \<and> activeChatId (handleSendMessage cfg now filePart chunks endAt ending st) = activeChatId st"
proof (cases "sendPrefix cfg now st")
  case (Pair st1 r)
  have f1: "storedHistory st1 = storedHistory st" "chatSessionRef st1 = chatSessionRef st"
    "activeChatId st1 = activeChatId st"
    using sendPrefix_frame[of cfg now st] Pair by simp_all
  show ?thesis
  proof (cases r)
    case None
    with Pair f1 show ?thesis by (simp add: handleSendMessage_def)
  next
    case (Some cl)
    show ?thesis
    proof (cases "sendRequest cl filePart st1")
      case (Inl e)
      with Pair Some f1 show ?thesis
        by (simp add: handleSendMessage_def onStreamError_frame)
    next
      case (Inr st2)
      with Pair Some f1 sendRequest_frame[OF Inr] show ?thesis
        by (simp add: handleSendMessage_def onSettle_frame onChunks_frame)
    qed
  qed
qed

lemma imageGenFailed_frame:
  "storedHistory (imageGenFailed cfg acs now aid st) = storedHistory st"
  "chatSessionRef (imageGenFailed cfg acs now aid st) = chatSessionRef st"
  "activeChatId (imageGenFailed cfg acs now aid st) = activeChatId st"
  by (simp_all add: imageGenFailed_def chatSessionsUpdater_def)

lemma handleGenerateImage_frame:
  "storedHistory (handleGenerateImage cfg env st) = storedHistory st
   \<and> chatSessionRef (handleGenerateImage cfg env st) = chatSessionRef st
   \<and> activeChatId (handleGenerateImage cfg env st) = activeChatId st"
  by (simp add: handleGenerateImage_def Let_def imageGenFailed_frame chatSessionsUpdater_def
        split: option.splits sum.splits)

lemma keyedById_single: "ses_id s = k \<Longrightarrow> keyedById [(k, s)]"
  by (simp add: keyedById_def)

lemma registryReserved_single: "markerReserved (ses_messages s) \<Longrightarrow> registryReserved [(k, s)]"
  by (simp add: registryReserved_def)

lemma initializeChatLogic_sessions:
  "chatSessions (initializeChatLogic cfg now ok fb sid m st) =
     [(ses_id (freshSession cfg now m), freshSession cfg now m)]
   \<or> (\<exists>loaded. loadedSessions cfg st = Some loaded
         \<and> (chatSessions (initializeChatLogic cfg now ok fb sid m st) = loaded
            \<or> chatSessions (initializeChatLogic cfg now ok fb sid m st) =
                 AList.update (ses_id (freshSession cfg now m)) (freshSession cfg now m) loaded))"
proof (cases "truthy (apiKey cfg)")
  case False
  then show ?thesis by (simp add: initializeChatLogic_def Let_def)
next
  case True
  show ?thesis
  proof (cases "initializeTry cfg now ok sid m st")
    case None
    with True show ?thesis by (simp add: initializeChatLogic_def Let_def)
  next
    case (Some st')
    from initializeTry_Some[OF Some] True Some show ?thesis
      by (auto simp: initializeChatLogic_def Let_def)
  qed
qed

lemma loadedSessions_wf:
  assumes "case storedHistory st of
             Some (Sessions reg) \<Rightarrow> keyedById reg \<and> registryReserved reg | _ \<Rightarrow> True"
      and "loadedSessions cfg st = Some loaded"
  shows "keyedById loaded \<and> registryReserved loaded"
  using assms
  by (auto simp: loadedSessions_def keyedById_backfill registryReserved_backfill
        split: option.splits StoredHistory.splits)
     (simp_all add: keyedById_def registryReserved_def)

lemma initializeChatLogic_frame:
  "storedHistory (initializeChatLogic cfg now ok fb sid m st) = storedHistory st"
  by (auto simp: initializeChatLogic_def initializeTry_def Let_def
        split: option.splits prod.splits if_splits)

lemma initializeChatLogic_wellFormed:
  assumes "wellFormed cfg st"
  shows "wellFormed cfg (initializeChatLogic cfg now ok fb sid m st)"
proof -
  let ?new = "freshSession cfg now m"
  have idn: "ses_id ?new = ses_id ?new" by simp
  from assms have stored: "case storedHistory st of
             Some (Sessions reg) \<Rightarrow> keyedById reg \<and> registryReserved reg | _ \<Rightarrow> True"
    by (simp add: wellFormed_def)
  have "keyedById (chatSessions (initializeChatLogic cfg now ok fb sid m st))
        \<and> registryReserved (chatSessions (initializeChatLogic cfg now ok fb sid m st))"
    using initializeChatLogic_sessions[of cfg now ok fb sid m st] loadedSessions_wf[OF stored]
    by (auto simp: keyedById_single registryReserved_single markerReserved_fresh
          keyedById_update registryReserved_update)
  moreover have "truthy (apiKey cfg)
                 \<or> chatSessionRef (initializeChatLogic cfg now ok fb sid m st) = None"
  proof (cases "truthy (apiKey cfg)")
    case False
    with assms have "chatSessionRef st = None" by (simp add: wellFormed_def)
    with False show ?thesis by (simp add: no_credential_no_handle(1))
  qed simp
  ultimately show ?thesis
    using stored by (simp add: wellFormed_def initializeChatLogic_frame)
qed

lemma startNewChat_wellFormed:
  assumes "wellFormed cfg st"
  shows "wellFormed cfg (startNewChat cfg now ok m st)"
proof -
  have "truthy (apiKey cfg) \<or> chatSessionRef (startNewChat cfg now ok m st) = None"
  proof (cases "truthy (apiKey cfg)")
    case False
    with assms have "chatSessionRef st = None" by (simp add: wellFormed_def)
    with False show ?thesis by (simp add: no_credential_no_handle(2))
  qed simp
  moreover have "storedHistory (startNewChat cfg now ok m st) = storedHistory st"
    by (simp add: startNewChat_def Let_def)
  ultimately show ?thesis
    using assms
    by (simp add: wellFormed_def startNewChat_sessions keyedById_update registryReserved_update
          markerReserved_welcome)
qed

lemma selectChatSession_wellFormed:
  assumes "wellFormed cfg st"
  shows "wellFormed cfg (selectChatSession cfg ok k st)"
proof -
  have "truthy (apiKey cfg) \<or> chatSessionRef (selectChatSession cfg ok k st) = None"
  proof (cases "truthy (apiKey cfg)")
    case False
    with assms have "chatSessionRef st = None" by (simp add: wellFormed_def)
    with False show ?thesis by (simp add: no_credential_no_handle(3))
  qed simp
  moreover have "storedHistory (selectChatSession cfg ok k st) = storedHistory st"
    by (simp add: selectChatSession_def Let_def split: option.splits)
  ultimately show ?thesis
    using assms by (simp add: wellFormed_def)
qed

lemma handleModelChange_wellFormed:
  "wellFormed cfg st \<Longrightarrow> wellFormed cfg (handleModelChangeOnSidebar cfg now ok m st)"
  by (simp add: handleModelChangeOnSidebar_def startNewChat_wellFormed split: option.splits)

lemma persist_wellFormed: "wellFormed cfg st \<Longrightarrow> wellFormed cfg (persist st)"
  by (simp add: wellFormed_def persist_def)

lemma handleSendMessage_wellFormed:
  assumes "wellFormed cfg st"
  shows "wellFormed cfg (handleSendMessage cfg now filePart chunks endAt ending st)"
proof -
  have "keyedById (chatSessions (handleSendMessage cfg now filePart chunks endAt ending st))"
    using assms
    by (intro handleSendMessage_preserves[where P = keyedById] ucsm_keyed)
       (simp_all add: wellFormed_def)
  moreover
  have "registryReserved (chatSessions (handleSendMessage cfg now filePart chunks endAt ending st))"
    using assms
    by (intro handleSendMessage_preserves[where P = registryReserved] ucsm_reserved)
       (simp_all add: wellFormed_def)
  ultimately show ?thesis
    using assms by (simp add: wellFormed_def handleSendMessage_frame)
qed

lemma handleGenerateImage_wellFormed:
  assumes "wellFormed cfg st"
  shows "wellFormed cfg (handleGenerateImage cfg env st)"
proof -
  have "keyedById (chatSessions (handleGenerateImage cfg env st))"
    using assms
    by (intro handleGenerateImage_preserves[where P = keyedById] ucsm_keyed)
       (simp_all add: wellFormed_def)
  moreover have "registryReserved (chatSessions (handleGenerateImage cfg env st))"
    using assms
    by (intro handleGenerateImage_preserves[where P = registryReserved] ucsm_reserved)
       (simp_all add: wellFormed_def)
  ultimately show ?thesis
    using assms by (simp add: wellFormed_def handleGenerateImage_frame)
qed

text \<open>
  Every state of the running program is well formed: the hypotheses on the registry that
  the theorems above make hold whenever the handlers are run on what the program itself
  has produced and stored.
\<close>

lemma reachable_wellFormed: "reachable cfg st \<Longrightarrow> wellFormed cfg st"
proof (induction rule: reachable.induct)
  case (start docs)
  show ?case by (simp add: wellFormed_def state0_def keyedById_def registryReserved_def)
next
  case (startCorrupt a docs)
  show ?case by (simp add: wellFormed_def state0_def keyedById_def registryReserved_def)
next
  case (restart st)
  then show ?case
    by (simp add: wellFormed_def state0_def) (simp add: keyedById_def registryReserved_def)
next
  case (initialize st now createOk fallbackOk sid m)
  then show ?case by (simp add: initializeChatLogic_wellFormed)
next
  case (persisted st)
  then show ?case by (simp add: persist_wellFormed)
next
  case (newChat st now createOk m)
  then show ?case by (simp add: startNewChat_wellFormed)
next
  case (select st createOk k)
  then show ?case by (simp add: selectChatSession_wellFormed)
next
  case (modelChange st now createOk m)
  then show ?case by (simp add: handleModelChange_wellFormed)
next
  case (typed st v)
  then show ?case by (simp add: wellFormed_def setInputValue_def)
next
  case (auth st u)
  then show ?case
    by (simp add: wellFormed_def fetchData_def onAuthStateChanged_def split: option.splits)
next
  case (send st now filePart chunks endAt ending)
  then show ?case by (simp add: handleSendMessage_wellFormed)
next
  case (image st env)
  then show ?case by (simp add: handleGenerateImage_wellFormed)
qed

text \<open>
  Without a credential, in every state of the running program a send makes no remote call,
  leaves the registry alone and never puts the missing-credential message on the error
  surface.
\<close>

lemma reachable_send_without_credential:
  assumes "reachable cfg st" and "\<not> truthy (apiKey cfg)"
  shows "remoteCalls (handleSendMessage cfg now filePart chunks endAt ending st) = remoteCalls st"
    and "chatSessions (handleSendMessage cfg now filePart chunks endAt ending st) = chatSessions st"
    and "globalError (handleSendMessage cfg now filePart chunks endAt ending st) = globalError st
         \<or> globalError (handleSendMessage cfg now filePart chunks endAt ending st)
              = Some ERROR_SESSION_NOT_READY_BN"
proof -
  from reachable_wellFormed[OF assms(1)] assms(2) have "chatSessionRef st = None"
    by (simp add: wellFormed_def)
  with assms(2) show
    "remoteCalls (handleSendMessage cfg now filePart chunks endAt ending st) = remoteCalls st"
    "chatSessions (handleSendMessage cfg now filePart chunks endAt ending st) = chatSessions st"
    "globalError (handleSendMessage cfg now filePart chunks endAt ending st) = globalError st
         \<or> globalError (handleSendMessage cfg now filePart chunks endAt ending st)
              = Some ERROR_SESSION_NOT_READY_BN"
    by (simp_all add: send_without_handle)
qed

end
